theory Spec2Isabelle
  imports Main
begin

section \<open>Boots: a bootstrap-script orchestrator\<close>

text \<open>
  A shallow embedding of the current revision of \<^verbatim>\<open>Boots.ts\<close> (class \<^verbatim>\<open>Boots\<close>) and of
  \<^verbatim>\<open>BootsScript.ts\<close> (\<^verbatim>\<open>isBootsScript\<close>). The command line, the module loader, the
  path join and the stringification of the JavaScript run time are inputs of the model.
\<close>

subsection \<open>JavaScript values\<close>

text \<open>
  The values a module can export and a promise can settle with: \<^verbatim>\<open>undefined\<close>, \<^verbatim>\<open>null\<close>,
  booleans, integral numbers, strings, plain objects (own properties in an association
  list, the first entry for a key wins) and functions. A function is described by what a
  call without arguments does: it returns a promise that fulfils with a value, that rejects
  with a value or that never settles, it returns something without a callable \<^verbatim>\<open>then\<close>, or it
  throws. Functions carry no properties of their own.
\<close>

datatype jsval =
    JUndefined
  | JNull
  | JBool bool
  | JNum int
  | JStr string
  | JObj "(string \<times> jsval) list"
  | JFun outcome
and outcome =
    Fulfils jsval
  | Rejects jsval
  | Pending
  | ReturnsNonThenable
  | ThrowsSync jsval

text \<open>
  Property read \<^verbatim>\<open>o.k\<close>, for the property names the program reads (\<^verbatim>\<open>default\<close>, \<^verbatim>\<open>run\<close>,
  \<^verbatim>\<open>bootsScriptName\<close>, \<^verbatim>\<open>scriptName\<close>, \<^verbatim>\<open>error\<close>): on \<^verbatim>\<open>undefined\<close> and \<^verbatim>\<open>null\<close> it throws a
  TypeError (\<open>None\<close>), on an object it yields the property or \<^verbatim>\<open>undefined\<close>, on every other
  value \<^verbatim>\<open>undefined\<close>.
\<close>

fun getProp :: "jsval \<Rightarrow> string \<Rightarrow> jsval option" where
  "getProp JUndefined k = None"
| "getProp JNull k = None"
| "getProp (JObj fs) k = Some (case map_of fs k of None \<Rightarrow> JUndefined | Some v \<Rightarrow> v)"
| "getProp v k = Some JUndefined"

text \<open>Truthiness, as \<^verbatim>\<open>if\<close> and \<^verbatim>\<open>&&\<close> see a value.\<close>

fun truthy :: "jsval \<Rightarrow> bool" where
  "truthy JUndefined = False"
| "truthy JNull = False"
| "truthy (JBool b) = b"
| "truthy (JNum n) = (n \<noteq> 0)"
| "truthy (JStr s) = (s \<noteq> [])"
| "truthy (JObj fs) = True"
| "truthy (JFun f) = True"

text \<open>\<^verbatim>\<open>typeof v === 'function'\<close>\<close>

fun typeofFunction :: "jsval \<Rightarrow> bool" where
  "typeofFunction (JFun f) = True"
| "typeofFunction v = False"

text \<open>The TypeError object the run time throws: it has none of the properties the program reads.\<close>

definition typeError :: jsval where
  "typeError = JObj [(''name'', JStr ''TypeError'')]"

subsection \<open>BootsScript.ts\<close>

text \<open>
  \<^verbatim>\<open>isBootsScript(o) = (typeof o.run === 'function') && o.bootsScriptName\<close>. The result is
  \<open>None\<close> when reading \<^verbatim>\<open>o.run\<close> throws, otherwise the value of the conjunction: \<^verbatim>\<open>false\<close>
  when \<^verbatim>\<open>run\<close> is no function, else the value of the name field.
\<close>

definition isBootsScript :: "jsval \<Rightarrow> jsval option" where
  "isBootsScript o' =
     (case getProp o' ''run'' of
        None \<Rightarrow> None
      | Some r \<Rightarrow>
          if typeofFunction r then getProp o' ''bootsScriptName''
          else Some (JBool False))"

subsection \<open>The environment and the session state\<close>

text \<open>
  What the program takes from outside: \<^verbatim>\<open>process.argv\<close>, \<^verbatim>\<open>process.cwd()\<close>, \<^verbatim>\<open>require\<close>
  (\<open>None\<close> when it throws, otherwise the module's exports), \<^verbatim>\<open>path.join\<close>,
  \<^verbatim>\<open>JSON.stringify\<close> on an array of strings, and the string conversion of numbers, objects
  and functions inside a template literal (\<open>None\<close> when it throws).
\<close>

record env =
  argv :: "string list"
  cwd :: string
  require :: "string \<Rightarrow> jsval option"
  pathJoin :: "string \<Rightarrow> string \<Rightarrow> string"
  jsonStringify :: "string list \<Rightarrow> string"
  toStringOther :: "jsval \<Rightarrow> string option"

text \<open>
  The fields of class \<^verbatim>\<open>Boots\<close>. \<open>requireLog\<close> is no field of the class: it records the
  argument of every \<^verbatim>\<open>require\<close> call, in call order.
\<close>

record boots =
  scriptPaths :: "string list"
  bootsScripts :: "jsval list"
  baseUrl :: string
  errors :: "string list"
  ok :: bool
  requireLog :: "string list"

record BootsOptions =
  optBaseUrl :: "string option"
  optForceSync :: "bool option"

definition commandlineFlag :: string where
  "commandlineFlag = ''--boots''"

text \<open>The constructor; \<^verbatim>\<open>if(options.baseUrl)\<close> is false for the empty string.\<close>

definition constructor :: "env \<Rightarrow> BootsOptions option \<Rightarrow> boots" where
  "constructor e options =
     \<lparr> scriptPaths = [],
       bootsScripts = [],
       baseUrl =
         (case options of
            None \<Rightarrow> cwd e
          | Some opts \<Rightarrow>
              (case optBaseUrl opts of
                 None \<Rightarrow> cwd e
               | Some b \<Rightarrow> if b \<noteq> [] then b else cwd e)),
       errors = [],
       ok = True,
       requireLog = [] \<rparr>"

subsection \<open>\<^verbatim>\<open>_loadScriptPaths\<close>\<close>

text \<open>\<^verbatim>\<open>array[searching][0] !== '-'\<close>: the first character of the empty string is \<^verbatim>\<open>undefined\<close>.\<close>

definition notDash :: "string \<Rightarrow> bool" where
  "notDash t = (case t of [] \<Rightarrow> True | c # cs \<Rightarrow> c \<noteq> CHR ''-'')"

text \<open>The inner \<^verbatim>\<open>while\<close> loop, from index \<open>searching\<close>.\<close>

function whileSearching :: "string list \<Rightarrow> nat \<Rightarrow> string list \<Rightarrow> string list" where
  "whileSearching array searching paths =
     (if searching < length array \<and> notDash (array ! searching)
      then whileSearching array (Suc searching) (paths @ [array ! searching])
      else paths)"
  by pat_completeness auto
termination
  by (relation "measure (\<lambda>(array, searching, paths). length array - searching)") auto

declare whileSearching.simps [simp del]

text \<open>The body of the \<^verbatim>\<open>forEach\<close> callback at one index, and the whole scan.\<close>

definition scanAt :: "string list \<Rightarrow> nat \<Rightarrow> string list \<Rightarrow> string list" where
  "scanAt array index paths =
     (if array ! index = commandlineFlag
      then whileSearching array (index + 1) paths
      else paths)"

definition loadScriptPaths :: "string list \<Rightarrow> string list" where
  "loadScriptPaths array = fold (scanAt array) [0 ..< length array] []"

subsection \<open>\<^verbatim>\<open>_loadModules\<close>\<close>

record LoadModulesResult =
  lmOk :: bool
  cantResolve :: "string list option"
  wrongType :: "string list option"

text \<open>
  \<^verbatim>\<open>result.cantResolve ? result.cantResolve.push(p) : result.cantResolve = [p]\<close>, and the
  same for \<^verbatim>\<open>wrongType\<close>: an absent field is \<open>None\<close>.
\<close>

definition pushOpt :: "string list option \<Rightarrow> string \<Rightarrow> string list option" where
  "pushOpt field p = (case field of None \<Rightarrow> Some [p] | Some ps \<Rightarrow> Some (ps @ [p]))"

definition recordCantResolve :: "string \<Rightarrow> LoadModulesResult \<Rightarrow> LoadModulesResult" where
  "recordCantResolve p result = result\<lparr> lmOk := False, cantResolve := pushOpt (cantResolve result) p \<rparr>"

definition recordWrongType :: "string \<Rightarrow> LoadModulesResult \<Rightarrow> LoadModulesResult" where
  "recordWrongType p result = result\<lparr> lmOk := False, wrongType := pushOpt (wrongType result) p \<rparr>"

text \<open>
  \<^verbatim>\<open>require(p).default\<close>: \<open>None\<close> when \<^verbatim>\<open>require\<close> throws or when the exports are \<^verbatim>\<open>undefined\<close>
  or \<^verbatim>\<open>null\<close>, so that reading \<^verbatim>\<open>default\<close> throws.
\<close>

definition requireDefault :: "env \<Rightarrow> string \<Rightarrow> jsval option" where
  "requireDefault e p = (case require e p of None \<Rightarrow> None | Some m \<Rightarrow> getProp m ''default'')"

definition logRequire :: "string \<Rightarrow> boots \<Rightarrow> boots" where
  "logRequire p s = s\<lparr> requireLog := requireLog s @ [p] \<rparr>"

text \<open>
  The part of the outer \<^verbatim>\<open>try\<close> after the load: the shape check under the current value of
  \<^verbatim>\<open>scriptPath\<close>. A throw of \<^verbatim>\<open>isBootsScript\<close> lands in the outer \<^verbatim>\<open>catch\<close>.
\<close>

definition checkModule :: "string \<Rightarrow> jsval \<Rightarrow> boots \<times> LoadModulesResult \<Rightarrow> boots \<times> LoadModulesResult" where
  "checkModule scriptPath bootsScript st =
     (case st of (s, result) \<Rightarrow>
        (case isBootsScript bootsScript of
           None \<Rightarrow> (s, recordCantResolve scriptPath result)
         | Some b \<Rightarrow>
             if truthy b then (s\<lparr> bootsScripts := bootsScripts s @ [bootsScript] \<rparr>, result)
             else (s, recordWrongType scriptPath result)))"

text \<open>
  The \<^verbatim>\<open>forEach\<close> callback. The inner \<^verbatim>\<open>catch\<close> assigns the joined path to the parameter
  \<^verbatim>\<open>scriptPath\<close>, so everything after it, the outer \<^verbatim>\<open>catch\<close> included, sees the joined path.
\<close>

definition loadOne :: "env \<Rightarrow> string \<Rightarrow> boots \<times> LoadModulesResult \<Rightarrow> boots \<times> LoadModulesResult" where
  "loadOne e scriptPath st =
     (case st of (s, result) \<Rightarrow>
        (let s1 = logRequire scriptPath s in
         case requireDefault e scriptPath of
           Some bootsScript \<Rightarrow> checkModule scriptPath bootsScript (s1, result)
         | None \<Rightarrow>
             (let scriptPath' = pathJoin e (baseUrl s1) scriptPath;
                  s2 = logRequire scriptPath' s1 in
              case requireDefault e scriptPath' of
                Some bootsScript \<Rightarrow> checkModule scriptPath' bootsScript (s2, result)
              | None \<Rightarrow> (s2, recordCantResolve scriptPath' result))))"

definition loadModules :: "env \<Rightarrow> string list \<Rightarrow> boots \<Rightarrow> boots \<times> LoadModulesResult" where
  "loadModules e paths s =
     fold (loadOne e) paths (s, \<lparr> lmOk = True, cantResolve = None, wrongType = None \<rparr>)"

subsection \<open>The result stream\<close>

text \<open>
  What a subscriber can observe, in order. \<open>RunInvoked i\<close> is no call on the subscriber: it
  records that \<^verbatim>\<open>run()\<close> of the unit at index \<open>i\<close> of \<^verbatim>\<open>bootsScripts\<close> was called.
\<close>

datatype event =
    RunInvoked nat
  | Next jsval
  | ErrorEv string
  | Complete

text \<open>
  The two observables \<^verbatim>\<open>go\<close> returns: \<^verbatim>\<open>throwError(msg)\<close>, and the observable of
  \<^verbatim>\<open>_runScripts\<close>, which reads \<^verbatim>\<open>this.bootsScripts\<close> when it is subscribed to.
\<close>

datatype observable = ThrowError string | RunScripts

text \<open>The promise chain that \<^verbatim>\<open>reduce\<close> accumulates.\<close>

datatype chain = ChainFulfilled "jsval list" | ChainRejected jsval | ChainPending

text \<open>\<^verbatim>\<open>currentTask.run()\<close>: a TypeError when the task has no callable \<^verbatim>\<open>run\<close>.\<close>

definition callRun :: "jsval \<Rightarrow> outcome" where
  "callRun task =
     (case getProp task ''run'' of
        Some (JFun f) \<Rightarrow> f
      | _ \<Rightarrow> ThrowsSync typeError)"

text \<open>
  One step of the \<^verbatim>\<open>reduce\<close> callback for the task at index \<open>i\<close>. The \<^verbatim>\<open>then\<close> callback runs only
  on a fulfilled chain; there it calls \<^verbatim>\<open>run()\<close>, and when the returned promise fulfils it
  calls \<^verbatim>\<open>subscriber.next\<close> and extends the results. Both \<^verbatim>\<open>catch\<close> callbacks rethrow. A chain
  that is rejected or never settles skips the task.
\<close>

definition chainStep :: "nat \<Rightarrow> jsval \<Rightarrow> chain \<times> event list \<Rightarrow> chain \<times> event list" where
  "chainStep i currentTask acc =
     (case acc of (promiseChain, evs) \<Rightarrow>
        (case promiseChain of
           ChainFulfilled chainResults \<Rightarrow>
             (case callRun currentTask of
                Fulfils currentResult \<Rightarrow>
                  (ChainFulfilled (chainResults @ [currentResult]),
                   evs @ [RunInvoked i, Next currentResult])
              | Rejects errorResult \<Rightarrow> (ChainRejected errorResult, evs @ [RunInvoked i])
              | Pending \<Rightarrow> (ChainPending, evs @ [RunInvoked i])
              | ReturnsNonThenable \<Rightarrow> (ChainRejected typeError, evs @ [RunInvoked i])
              | ThrowsSync errorResult \<Rightarrow> (ChainRejected errorResult, evs @ [RunInvoked i]))
         | ChainRejected errorResult \<Rightarrow> (ChainRejected errorResult, evs)
         | ChainPending \<Rightarrow> (ChainPending, evs)))"

fun reduceChain :: "nat \<Rightarrow> jsval list \<Rightarrow> chain \<times> event list \<Rightarrow> chain \<times> event list" where
  "reduceChain i [] acc = acc"
| "reduceChain i (currentTask # tasks) acc = reduceChain (Suc i) tasks (chainStep i currentTask acc)"

text \<open>String conversion inside a template literal; \<open>None\<close> when it throws.\<close>

fun toStr :: "env \<Rightarrow> jsval \<Rightarrow> string option" where
  "toStr e JUndefined = Some ''undefined''"
| "toStr e JNull = Some ''null''"
| "toStr e (JBool b) = Some (if b then ''true'' else ''false'')"
| "toStr e (JStr s) = Some s"
| "toStr e v = toStringOther e v"

text \<open>
  The argument of \<^verbatim>\<open>subscriber.error\<close> in the final \<^verbatim>\<open>catch\<close>; \<open>None\<close> when building it throws,
  which happens when the rejection value is \<^verbatim>\<open>undefined\<close> or \<^verbatim>\<open>null\<close>.
\<close>

definition errorMessage :: "env \<Rightarrow> jsval \<Rightarrow> string option" where
  "errorMessage e errorResult =
     (case getProp errorResult ''scriptName'' of
        None \<Rightarrow> None
      | Some n \<Rightarrow>
          (case toStr e n of
             None \<Rightarrow> None
           | Some ns \<Rightarrow>
               (case getProp errorResult ''error'' of
                  None \<Rightarrow> None
                | Some er \<Rightarrow>
                    (case toStr e er of
                       None \<Rightarrow> None
                     | Some es \<Rightarrow>
                         Some (''Boots Error: Script '' @ ns @
                               '' reported the following error: '' @ es)))))"

text \<open>
  The end of the chain: \<^verbatim>\<open>complete()\<close> after a fulfilled chain; after a rejected one the flag
  is cleared first and then \<^verbatim>\<open>subscriber.error\<close> is called, unless building its argument
  throws; nothing when the chain never settles.
\<close>

definition finishChain :: "env \<Rightarrow> boots \<Rightarrow> chain \<times> event list \<Rightarrow> boots \<times> event list" where
  "finishChain e s acc =
     (case acc of (promiseChain, evs) \<Rightarrow>
        (case promiseChain of
           ChainFulfilled arrayOfResults \<Rightarrow> (s, evs @ [Complete])
         | ChainRejected errorResult \<Rightarrow>
             (s\<lparr> ok := False \<rparr>,
              (case errorMessage e errorResult of
                 None \<Rightarrow> evs
               | Some msg \<Rightarrow> evs @ [ErrorEv msg]))
         | ChainPending \<Rightarrow> (s, evs)))"

text \<open>Subscribing to the observable of \<^verbatim>\<open>_runScripts\<close>.\<close>

definition runScripts :: "env \<Rightarrow> boots \<Rightarrow> boots \<times> event list" where
  "runScripts e s = finishChain e s (reduceChain 0 (bootsScripts s) (ChainFulfilled [], []))"

definition subscribe :: "env \<Rightarrow> observable \<Rightarrow> boots \<Rightarrow> boots \<times> event list" where
  "subscribe e obs s =
     (case obs of
        ThrowError msg \<Rightarrow> (s, [ErrorEv msg])
      | RunScripts \<Rightarrow> runScripts e s)"

subsection \<open>\<^verbatim>\<open>go\<close> and \<^verbatim>\<open>logErrors\<close>\<close>

definition noPathsMessage :: string where
  "noPathsMessage = ''Boots Error: No script paths were specified.''"

definition loadFailedMessage :: string where
  "loadFailedMessage = ''Boots Error: At least one error occurred while attempting to load the BootsScript modules. Use Boots.logErrors() to view more information.''"

definition cantResolveDiagnostic :: "env \<Rightarrow> string list \<Rightarrow> string" where
  "cantResolveDiagnostic e ps = ''Could not resolve the following paths: '' @ jsonStringify e ps"

definition wrongTypeDiagnostic :: "env \<Rightarrow> string list \<Rightarrow> string" where
  "wrongTypeDiagnostic e ps =
     ''The following given BootsScript modules had no default export that was an instance of BootsScript: ''
       @ jsonStringify e ps"

definition pushErrors :: "env \<Rightarrow> LoadModulesResult \<Rightarrow> boots \<Rightarrow> boots" where
  "pushErrors e checkModules s =
     (let s1 = (case cantResolve checkModules of
                  None \<Rightarrow> s
                | Some ps \<Rightarrow> s\<lparr> errors := errors s @ [cantResolveDiagnostic e ps] \<rparr>)
      in (case wrongType checkModules of
            None \<Rightarrow> s1
          | Some ps \<Rightarrow> s1\<lparr> errors := errors s1 @ [wrongTypeDiagnostic e ps] \<rparr>))"

definition go :: "env \<Rightarrow> boots \<Rightarrow> boots \<times> observable" where
  "go e s =
     (let s1 = s\<lparr> scriptPaths := loadScriptPaths (argv e) \<rparr> in
      if length (scriptPaths s1) < 1
      then (s1\<lparr> ok := False \<rparr>, ThrowError noPathsMessage)
      else
        (case loadModules e (scriptPaths s1) s1 of (s2, checkModules) \<Rightarrow>
           if \<not> lmOk checkModules
           then (pushErrors e checkModules (s2\<lparr> ok := False \<rparr>), ThrowError loadFailedMessage)
           else (s2, RunScripts)))"

text \<open>\<^verbatim>\<open>logErrors\<close> writes one console line per stored diagnostic and changes nothing.\<close>

definition logErrors :: "boots \<Rightarrow> boots \<times> string list" where
  "logErrors s = (s, map (\<lambda>error. ''Boots Error: '' @ error) (errors s))"

section \<open>Notions used in the statements\<close>

subsection \<open>Resolution of one identifier\<close>

text \<open>
  What becomes of one identifier: a validated unit, or an entry of the wrong-shape or of
  the unresolvable collection. The entry is the path under which the identifier was tried
  last: the identifier itself after a direct load, the joined path after the fallback.
\<close>

datatype resolution = Unit jsval | WrongShape string | Unresolvable string

definition shapeOf :: "string \<Rightarrow> jsval \<Rightarrow> resolution" where
  "shapeOf q v =
     (case isBootsScript v of
        None \<Rightarrow> Unresolvable q
      | Some b \<Rightarrow> if truthy b then Unit v else WrongShape q)"

definition resolveOne :: "env \<Rightarrow> string \<Rightarrow> string \<Rightarrow> resolution" where
  "resolveOne e base p =
     (case requireDefault e p of
        Some v \<Rightarrow> shapeOf p v
      | None \<Rightarrow>
          (case requireDefault e (pathJoin e base p) of
             Some v \<Rightarrow> shapeOf (pathJoin e base p) v
           | None \<Rightarrow> Unresolvable (pathJoin e base p)))"

text \<open>The \<^verbatim>\<open>require\<close> calls made for one identifier.\<close>

definition attempts :: "env \<Rightarrow> string \<Rightarrow> string \<Rightarrow> string list" where
  "attempts e base p = (if requireDefault e p = None then [p, pathJoin e base p] else [p])"

fun unitsOf :: "resolution list \<Rightarrow> jsval list" where
  "unitsOf [] = []"
| "unitsOf (Unit v # rs) = v # unitsOf rs"
| "unitsOf (r # rs) = unitsOf rs"

fun wrongShapesOf :: "resolution list \<Rightarrow> string list" where
  "wrongShapesOf [] = []"
| "wrongShapesOf (WrongShape q # rs) = q # wrongShapesOf rs"
| "wrongShapesOf (r # rs) = wrongShapesOf rs"

fun unresolvablesOf :: "resolution list \<Rightarrow> string list" where
  "unresolvablesOf [] = []"
| "unresolvablesOf (Unresolvable q # rs) = q # unresolvablesOf rs"
| "unresolvablesOf (r # rs) = unresolvablesOf rs"

text \<open>An optional collection after some more entries were pushed: it stays absent when there are none.\<close>

definition extendOpt :: "string list option \<Rightarrow> string list \<Rightarrow> string list option" where
  "extendOpt field qs =
     (if qs = [] then field else Some ((case field of None \<Rightarrow> [] | Some ps \<Rightarrow> ps) @ qs))"

definition applyResolution :: "resolution \<Rightarrow> boots \<times> LoadModulesResult \<Rightarrow> boots \<times> LoadModulesResult" where
  "applyResolution x st =
     (case st of (s, r) \<Rightarrow>
        (case x of
           Unit v \<Rightarrow> (s\<lparr> bootsScripts := bootsScripts s @ [v] \<rparr>, r)
         | WrongShape q \<Rightarrow> (s, recordWrongType q r)
         | Unresolvable q \<Rightarrow> (s, recordCantResolve q r)))"

text \<open>The diagnostics \<^verbatim>\<open>go\<close> stores for a report: one line per collection that is present.\<close>

definition diagnosticsOf :: "env \<Rightarrow> LoadModulesResult \<Rightarrow> string list" where
  "diagnosticsOf e r =
     (case cantResolve r of None \<Rightarrow> [] | Some ps \<Rightarrow> [cantResolveDiagnostic e ps]) @
     (case wrongType r of None \<Rightarrow> [] | Some ps \<Rightarrow> [wrongTypeDiagnostic e ps])"

subsection \<open>The shape check as a predicate\<close>

text \<open>The check passes when \<^verbatim>\<open>if(isBootsScript(v))\<close> takes its first branch.\<close>

definition shapeCheckPasses :: "jsval \<Rightarrow> bool" where
  "shapeCheckPasses v = (case isBootsScript v of None \<Rightarrow> False | Some b \<Rightarrow> truthy b)"

text \<open>
  The capability contract in the words of the specification: a non-empty name field, and
  a callable operation that returns an awaitable when called without arguments.
\<close>

fun returnsAwaitable :: "outcome \<Rightarrow> bool" where
  "returnsAwaitable (Fulfils v) = True"
| "returnsAwaitable (Rejects v) = True"
| "returnsAwaitable Pending = True"
| "returnsAwaitable ReturnsNonThenable = False"
| "returnsAwaitable (ThrowsSync v) = False"

definition specNonEmptyName :: "jsval \<Rightarrow> bool" where
  "specNonEmptyName v =
     (case getProp v ''bootsScriptName'' of Some (JStr n) \<Rightarrow> n \<noteq> [] | _ \<Rightarrow> False)"

definition specCallableAwaitable :: "jsval \<Rightarrow> bool" where
  "specCallableAwaitable v =
     (case getProp v ''run'' of Some (JFun f) \<Rightarrow> returnsAwaitable f | _ \<Rightarrow> False)"

definition specScriptUnitShape :: "jsval \<Rightarrow> bool" where
  "specScriptUnitShape v = (specNonEmptyName v \<and> specCallableAwaitable v)"

subsection \<open>Streams\<close>

text \<open>
  The events of units that fulfil one after the other with the results \<open>rs\<close>, the first
  of them at index \<open>i\<close>: each \<^verbatim>\<open>run()\<close> call is followed by the emission of its result, and
  only then comes the next call.
\<close>

fun emitted :: "nat \<Rightarrow> jsval list \<Rightarrow> event list" where
  "emitted i [] = []"
| "emitted i (r # rs) = RunInvoked i # Next r # emitted (Suc i) rs"

fun isNext :: "event \<Rightarrow> bool" where
  "isNext (Next v) = True"
| "isNext ev = False"

fun isRunInvoked :: "event \<Rightarrow> bool" where
  "isRunInvoked (RunInvoked i) = True"
| "isRunInvoked ev = False"

text \<open>The terminal event after a rejection with \<open>err\<close>: none when building its text throws.\<close>

definition terminalFailure :: "env \<Rightarrow> jsval \<Rightarrow> event list" where
  "terminalFailure e err = (case errorMessage e err of None \<Rightarrow> [] | Some msg \<Rightarrow> [ErrorEv msg])"

subsection \<open>The operations of a session\<close>

text \<open>
  What a caller can do with a session: call \<^verbatim>\<open>go\<close>, call \<^verbatim>\<open>logErrors\<close>, subscribe to an
  observable that \<^verbatim>\<open>go\<close> returned; each in the environment of the moment.
\<close>

datatype sessionOp = OpGo env | OpLogErrors | OpSubscribe env observable

fun applyOp :: "sessionOp \<Rightarrow> boots \<Rightarrow> boots" where
  "applyOp (OpGo e) s = fst (go e s)"
| "applyOp OpLogErrors s = fst (logErrors s)"
| "applyOp (OpSubscribe e obs) s = fst (subscribe e obs s)"

subsection \<open>An example environment\<close>

text \<open>
  The two scripts of the repository: \<^verbatim>\<open>test-script\<close> fulfils after a second, \<^verbatim>\<open>test2-script\<close>
  rejects with \<^verbatim>\<open>{success: false, error: 'big error', scriptName: 'test2-script'}\<close>.
\<close>

definition testOutcome :: jsval where
  "testOutcome = JObj [(''success'', JBool True), (''scriptName'', JStr ''test-script'')]"

definition testScript :: jsval where
  "testScript = JObj [(''bootsScriptName'', JStr ''test-script''), (''run'', JFun (Fulfils testOutcome))]"

definition test2Outcome :: jsval where
  "test2Outcome =
     JObj [(''success'', JBool False), (''error'', JStr ''big error''),
           (''scriptName'', JStr ''test2-script'')]"

definition test2Script :: jsval where
  "test2Script = JObj [(''bootsScriptName'', JStr ''test2-script''), (''run'', JFun (Rejects test2Outcome))]"

text \<open>
  Further units: one whose promise fulfils with a failure outcome, one whose promise rejects
  with \<^verbatim>\<open>undefined\<close>, one whose \<^verbatim>\<open>run\<close> returns a number, and a value with a name whose
  \<^verbatim>\<open>run\<close> is a string.
\<close>

definition softFailOutcome :: jsval where
  "softFailOutcome =
     JObj [(''success'', JBool False), (''error'', JStr ''boom''), (''scriptName'', JStr ''soft'')]"

definition softFailScript :: jsval where
  "softFailScript = JObj [(''bootsScriptName'', JStr ''soft''), (''run'', JFun (Fulfils softFailOutcome))]"

definition bareRejectScript :: jsval where
  "bareRejectScript = JObj [(''bootsScriptName'', JStr ''bare''), (''run'', JFun (Rejects JUndefined))]"

definition plainRunScript :: jsval where
  "plainRunScript = JObj [(''bootsScriptName'', JStr ''plain''), (''run'', JFun ReturnsNonThenable)]"

definition noRunScript :: jsval where
  "noRunScript = JObj [(''bootsScriptName'', JStr ''x''), (''run'', JStr ''nope'')]"

definition moduleOf :: "jsval \<Rightarrow> jsval" where
  "moduleOf d = JObj [(''default'', d)]"

text \<open>The modules \<^verbatim>\<open>require\<close> finds; \<^verbatim>\<open>/m/e\<close> has no default export.\<close>

definition exampleModules :: "(string \<times> jsval) list" where
  "exampleModules =
     [(''/m/t'', moduleOf testScript),
      (''/base/t2'', moduleOf test2Script),
      (''/m/s'', moduleOf softFailScript),
      (''/m/x'', moduleOf noRunScript),
      (''/m/e'', JObj []),
      (''/base/n'', moduleOf JNull)]"

text \<open>
  Stand-ins for \<^verbatim>\<open>path.join\<close> (a base without trailing separator, a plain relative name) and
  for \<^verbatim>\<open>JSON.stringify\<close> (strings without characters to escape).
\<close>

definition simpleJoin :: "string \<Rightarrow> string \<Rightarrow> string" where
  "simpleJoin b p = b @ ''/'' @ p"

fun commaSep :: "string list \<Rightarrow> string" where
  "commaSep [] = []"
| "commaSep [x] = x"
| "commaSep (x # y # ys) = x @ '','' @ commaSep (y # ys)"

definition quoteList :: "string list \<Rightarrow> string" where
  "quoteList ps = ''['' @ commaSep (map (\<lambda>p. CHR 0x22 # p @ [CHR 0x22]) ps) @ '']''"

definition exampleEnv :: "string list \<Rightarrow> env" where
  "exampleEnv args =
     \<lparr> argv = args,
       cwd = ''/base'',
       require = map_of exampleModules,
       pathJoin = simpleJoin,
       jsonStringify = quoteList,
       toStringOther = (\<lambda>v. Some ''[object Object]'') \<rparr>"

definition freshSession :: boots where
  "freshSession = constructor (exampleEnv []) None"

text \<open>
  Sessions holding validated units: a succeeding, a rejecting and again a succeeding one;
  and one whose first unit fulfils with a failure outcome.
\<close>

definition abcSession :: boots where
  "abcSession = freshSession\<lparr> bootsScripts := [testScript, test2Script, testScript] \<rparr>"

definition softSession :: boots where
  "softSession = freshSession\<lparr> bootsScripts := [softFailScript, testScript] \<rparr>"

text \<open>A session whose first unit rejects with \<^verbatim>\<open>undefined\<close>.\<close>

definition bareSession :: boots where
  "bareSession = freshSession\<lparr> bootsScripts := [bareRejectScript, testScript] \<rparr>"

section \<open>The identifier scan\<close>

lemma whileSearching_takeWhile:
  "whileSearching array i paths = paths @ takeWhile notDash (drop i array)"
proof (induction array i paths rule: whileSearching.induct)
  case (1 array searching paths)
  show ?case
  proof (cases "searching < length array")
    case inside: True
    then have d: "drop searching array = array ! searching # drop (Suc searching) array"
      by (simp add: Cons_nth_drop_Suc)
    show ?thesis
    proof (cases "notDash (array ! searching)")
      case True
      with inside 1 show ?thesis
        by (subst whileSearching.simps) (simp add: d)
    next
      case False
      with inside show ?thesis
        by (subst whileSearching.simps) (simp add: d)
    qed
  next
    case False
    then show ?thesis
      by (subst whileSearching.simps) simp
  qed
qed

lemma fold_scanAt:
  "fold (scanAt array) is paths =
     paths @ concat (map (\<lambda>i. takeWhile notDash (drop (Suc i) array))
                         (filter (\<lambda>i. array ! i = commandlineFlag) is))"
  by (induction "is" arbitrary: paths) (simp_all add: scanAt_def whileSearching_takeWhile)

text \<open>
  C9. For every argument list, the scan yields, for each position that holds the flag
  \<^verbatim>\<open>--boots\<close>, in the order of the positions, the tokens after that position up to but
  excluding the next token that starts with \<^verbatim>\<open>-\<close> (or up to the end of the list). No other
  token is compared with: \<^verbatim>\<open>--boots\<close> is the one flag name recognised.
\<close>

theorem loadScriptPaths_after_flag:
  "commandlineFlag = ''--boots'' \<and>
   loadScriptPaths args =
     concat (map (\<lambda>i. takeWhile notDash (drop (Suc i) args))
                 (filter (\<lambda>i. args ! i = ''--boots'') [0 ..< length args]))"
  by (simp add: loadScriptPaths_def fold_scanAt commandlineFlag_def)

theorem loadScriptPaths_after_flag_witness:
  "loadScriptPaths [''node'', ''--boots'', ''a'', ''b'', ''-v'', ''c'', ''--boots'', ''d''] = [''a'', ''b'', ''d'']"
  using loadScriptPaths_after_flag [of "[''node'', ''--boots'', ''a'', ''b'', ''-v'', ''c'', ''--boots'', ''d'']",
      THEN conjunct2]
  by (simp add: notDash_def upt_rec)

section \<open>The resolver\<close>

lemma checkModule_shapeOf:
  "checkModule q v (s, r) = applyResolution (shapeOf q v) (s, r)"
  by (simp add: checkModule_def shapeOf_def applyResolution_def split: option.splits)

lemma loadOne_resolveOne:
  "loadOne e p (s, r) =
     applyResolution (resolveOne e (baseUrl s) p)
       (s\<lparr> requireLog := requireLog s @ attempts e (baseUrl s) p \<rparr>, r)"
  by (simp add: loadOne_def resolveOne_def attempts_def logRequire_def checkModule_shapeOf Let_def
                applyResolution_def split: option.splits)

lemma extendOpt_push:
  "extendOpt (pushOpt f q) qs = extendOpt f (q # qs)"
  by (simp add: extendOpt_def pushOpt_def split: option.splits)

lemma fold_loadOne:
  "fold (loadOne e) ps (s, r) =
     (s\<lparr> bootsScripts := bootsScripts s @ unitsOf (map (resolveOne e (baseUrl s)) ps),
         requireLog := requireLog s @ concat (map (attempts e (baseUrl s)) ps) \<rparr>,
      r\<lparr> lmOk := lmOk r \<and> unresolvablesOf (map (resolveOne e (baseUrl s)) ps) = []
                      \<and> wrongShapesOf (map (resolveOne e (baseUrl s)) ps) = [],
         cantResolve := extendOpt (cantResolve r) (unresolvablesOf (map (resolveOne e (baseUrl s)) ps)),
         wrongType := extendOpt (wrongType r) (wrongShapesOf (map (resolveOne e (baseUrl s)) ps)) \<rparr>)"
proof (induction ps arbitrary: s r)
  case Nil
  show ?case by (simp add: extendOpt_def)
next
  case (Cons p ps)
  show ?case
  proof (cases "resolveOne e (baseUrl s) p")
    case (Unit v)
    then show ?thesis
      by (simp add: loadOne_resolveOne applyResolution_def Cons.IH)
  next
    case (WrongShape q)
    then show ?thesis
      by (simp add: loadOne_resolveOne applyResolution_def Cons.IH recordWrongType_def extendOpt_push)
  next
    case (Unresolvable q)
    then show ?thesis
      by (simp add: loadOne_resolveOne applyResolution_def Cons.IH recordCantResolve_def extendOpt_push)
  qed
qed

lemma loadModules_eq:
  "loadModules e ps s =
     (s\<lparr> bootsScripts := bootsScripts s @ unitsOf (map (resolveOne e (baseUrl s)) ps),
         requireLog := requireLog s @ concat (map (attempts e (baseUrl s)) ps) \<rparr>,
      \<lparr> lmOk = (unresolvablesOf (map (resolveOne e (baseUrl s)) ps) = []
                \<and> wrongShapesOf (map (resolveOne e (baseUrl s)) ps) = []),
        cantResolve = extendOpt None (unresolvablesOf (map (resolveOne e (baseUrl s)) ps)),
        wrongType = extendOpt None (wrongShapesOf (map (resolveOne e (baseUrl s)) ps)) \<rparr>)"
  by (simp add: loadModules_def fold_loadOne)

lemma extendOpt_None_iff: "extendOpt None qs = None \<longleftrightarrow> qs = []"
  by (simp add: extendOpt_def)

lemma count_resolutions:
  "length (unitsOf rs) + length (wrongShapesOf rs) + length (unresolvablesOf rs) = length rs"
proof (induction rs)
  case Nil
  show ?case by simp
next
  case (Cons x rs)
  then show ?case by (cases x) simp_all
qed

lemma attempts_hd: "p \<in> set (attempts e base p)"
  by (simp add: attempts_def)

lemma tried_all: "set ps \<subseteq> set (concat (map (attempts e base) ps))"
  using attempts_hd by fastforce

lemma go_load_failed:
  assumes "loadScriptPaths (argv e) = ps" and "ps \<noteq> []"
    and "loadModules e ps (s\<lparr> scriptPaths := ps \<rparr>) = (s', r)" and "\<not> lmOk r"
  shows "go e s = (s'\<lparr> ok := False, errors := errors s' @ diagnosticsOf e r \<rparr>, ThrowError loadFailedMessage)"
proof -
  from assms(2) have "\<not> length ps < 1" by (cases ps) simp_all
  with assms show ?thesis
    by (simp add: go_def Let_def pushErrors_def diagnosticsOf_def split: option.splits)
qed

lemma resolveOne_path:
  "resolveOne e base p = Unresolvable q \<or> resolveOne e base p = WrongShape q \<Longrightarrow>
   q = (if requireDefault e p = None then pathJoin e base p else p)"
  by (auto simp: resolveOne_def shapeOf_def split: option.splits if_splits)

lemma unresolvable_listed: "Unresolvable q \<in> set rs \<Longrightarrow> q \<in> set (unresolvablesOf rs)"
proof (induction rs)
  case Nil
  then show ?case by simp
next
  case (Cons x rs)
  then show ?case by (cases x) auto
qed

lemma wrongShape_listed: "WrongShape q \<in> set rs \<Longrightarrow> q \<in> set (wrongShapesOf rs)"
proof (induction rs)
  case Nil
  then show ?case by simp
next
  case (Cons x rs)
  then show ?case by (cases x) auto
qed

lemma extendOpt_None_mem: "q \<in> set qs \<Longrightarrow> extendOpt None qs = Some qs"
  by (auto simp: extendOpt_def)

text \<open>
  C3 (amended). For every identifier sequence, \<^verbatim>\<open>_loadModules\<close> tries every identifier and
  turns each into exactly one of a unit, a wrong-shape entry or an unresolvable entry, in
  input order, whatever became of the identifiers before it. The entry of a bad identifier
  is the path it was tried under last: the identifier itself after a direct load, the
  identifier joined onto the base directory after the fallback; it is a member of the
  collection it belongs to. The report's flag is true if and only if both collections are
  absent. When it is false, \<^verbatim>\<open>go\<close> clears the session's flag and appends to the stored
  diagnostics the line \<^verbatim>\<open>Could not resolve the following paths: \<close> followed by the
  stringified unresolvable collection, when that is present, and the line
  \<^verbatim>\<open>The following given BootsScript modules had no default export that was an instance of BootsScript: \<close>
  followed by the stringified wrong-shape collection, when that is present. It returns
  the failing observable: a subscriber receives the summary error and nothing else, so
  that no unit is run and no outcome is emitted.
\<close>

theorem resolution_exhaustive:
  assumes "loadModules e ps s = (s', r)"
  shows "length (unitsOf (map (resolveOne e (baseUrl s)) ps))
           + length (wrongShapesOf (map (resolveOne e (baseUrl s)) ps))
           + length (unresolvablesOf (map (resolveOne e (baseUrl s)) ps)) = length ps
       \<and> set ps \<subseteq> set (requireLog s')
       \<and> bootsScripts s' = bootsScripts s @ unitsOf (map (resolveOne e (baseUrl s)) ps)
       \<and> cantResolve r = extendOpt None (unresolvablesOf (map (resolveOne e (baseUrl s)) ps))
       \<and> wrongType r = extendOpt None (wrongShapesOf (map (resolveOne e (baseUrl s)) ps))
       \<and> (\<forall>p \<in> set ps. \<forall>q. resolveOne e (baseUrl s) p = Unresolvable q \<longrightarrow>
             q = (if requireDefault e p = None then pathJoin e (baseUrl s) p else p)
             \<and> (\<exists>qs. cantResolve r = Some qs \<and> q \<in> set qs))
       \<and> (\<forall>p \<in> set ps. \<forall>q. resolveOne e (baseUrl s) p = WrongShape q \<longrightarrow>
             q = (if requireDefault e p = None then pathJoin e (baseUrl s) p else p)
             \<and> (\<exists>qs. wrongType r = Some qs \<and> q \<in> set qs))
       \<and> (lmOk r \<longleftrightarrow> cantResolve r = None \<and> wrongType r = None)
       \<and> (\<not> lmOk r \<longrightarrow>
            (\<forall>s0. s = s0\<lparr> scriptPaths := ps \<rparr> \<and> loadScriptPaths (argv e) = ps \<and> ps \<noteq> [] \<longrightarrow>
               go e s0 =
                 (s'\<lparr> ok := False,
                      errors := errors s0
                        @ (case cantResolve r of
                             None \<Rightarrow> []
                           | Some qs \<Rightarrow>
                               [''Could not resolve the following paths: '' @ jsonStringify e qs])
                        @ (case wrongType r of
                             None \<Rightarrow> []
                           | Some qs \<Rightarrow>
                               [''The following given BootsScript modules had no default export that was an instance of BootsScript: ''
                                  @ jsonStringify e qs]) \<rparr>,
                  ThrowError ''Boots Error: At least one error occurred while attempting to load the BootsScript modules. Use Boots.logErrors() to view more information.'')
               \<and> subscribe e (snd (go e s0)) (fst (go e s0))
                   = (fst (go e s0),
                      [ErrorEv ''Boots Error: At least one error occurred while attempting to load the BootsScript modules. Use Boots.logErrors() to view more information.''])))"
proof -
  let ?rs = "map (resolveOne e (baseUrl s)) ps"
  let ?lines = "\<lambda>r. (case cantResolve r of
                             None \<Rightarrow> []
                           | Some qs \<Rightarrow>
                               [''Could not resolve the following paths: '' @ jsonStringify e qs])
                        @ (case wrongType r of
                             None \<Rightarrow> []
                           | Some qs \<Rightarrow>
                               [''The following given BootsScript modules had no default export that was an instance of BootsScript: ''
                                  @ jsonStringify e qs])"
  let ?summary = "''Boots Error: At least one error occurred while attempting to load the BootsScript modules. Use Boots.logErrors() to view more information.''"
  have lines: "diagnosticsOf e r = ?lines r"
    by (simp add: diagnosticsOf_def cantResolveDiagnostic_def wrongTypeDiagnostic_def
          split: option.splits)
  have summary: "loadFailedMessage = ?summary"
    by (simp add: loadFailedMessage_def)
  have c1: "length (unitsOf ?rs) + length (wrongShapesOf ?rs) + length (unresolvablesOf ?rs) = length ps"
    using count_resolutions [of ?rs] by simp
  from assms have s': "s' = s\<lparr> bootsScripts := bootsScripts s @ unitsOf ?rs,
         requireLog := requireLog s @ concat (map (attempts e (baseUrl s)) ps) \<rparr>"
    and r: "r = \<lparr> lmOk = (unresolvablesOf ?rs = [] \<and> wrongShapesOf ?rs = []),
        cantResolve = extendOpt None (unresolvablesOf ?rs),
        wrongType = extendOpt None (wrongShapesOf ?rs) \<rparr>"
    by (simp_all add: loadModules_eq)
  have c2: "set ps \<subseteq> set (requireLog s')"
    using tried_all [of ps e "baseUrl s"] by (auto simp: s')
  have c3: "bootsScripts s' = bootsScripts s @ unitsOf ?rs" by (simp add: s')
  have c4: "cantResolve r = extendOpt None (unresolvablesOf ?rs)" by (simp add: r)
  have c5: "wrongType r = extendOpt None (wrongShapesOf ?rs)" by (simp add: r)
  have e1: "\<forall>p \<in> set ps. \<forall>q. resolveOne e (baseUrl s) p = Unresolvable q \<longrightarrow>
             q = (if requireDefault e p = None then pathJoin e (baseUrl s) p else p)
             \<and> (\<exists>qs. cantResolve r = Some qs \<and> q \<in> set qs)"
  proof (intro ballI allI impI)
    fix p q
    assume p: "p \<in> set ps" and q: "resolveOne e (baseUrl s) p = Unresolvable q"
    from q have path: "q = (if requireDefault e p = None then pathJoin e (baseUrl s) p else p)"
      by (simp add: resolveOne_path)
    from p q have "Unresolvable q \<in> set ?rs" by force
    then have m: "q \<in> set (unresolvablesOf ?rs)" by (rule unresolvable_listed)
    with c4 have "cantResolve r = Some (unresolvablesOf ?rs)" by (simp add: extendOpt_None_mem)
    with m path show "q = (if requireDefault e p = None then pathJoin e (baseUrl s) p else p)
             \<and> (\<exists>qs. cantResolve r = Some qs \<and> q \<in> set qs)"
      by blast
  qed
  have e2: "\<forall>p \<in> set ps. \<forall>q. resolveOne e (baseUrl s) p = WrongShape q \<longrightarrow>
             q = (if requireDefault e p = None then pathJoin e (baseUrl s) p else p)
             \<and> (\<exists>qs. wrongType r = Some qs \<and> q \<in> set qs)"
  proof (intro ballI allI impI)
    fix p q
    assume p: "p \<in> set ps" and q: "resolveOne e (baseUrl s) p = WrongShape q"
    from q have path: "q = (if requireDefault e p = None then pathJoin e (baseUrl s) p else p)"
      by (simp add: resolveOne_path)
    from p q have "WrongShape q \<in> set ?rs" by force
    then have m: "q \<in> set (wrongShapesOf ?rs)" by (rule wrongShape_listed)
    with c5 have "wrongType r = Some (wrongShapesOf ?rs)" by (simp add: extendOpt_None_mem)
    with m path show "q = (if requireDefault e p = None then pathJoin e (baseUrl s) p else p)
             \<and> (\<exists>qs. wrongType r = Some qs \<and> q \<in> set qs)"
      by blast
  qed
  have c6: "lmOk r \<longleftrightarrow> cantResolve r = None \<and> wrongType r = None"
    by (simp add: r extendOpt_None_iff)
  have c7: "\<not> lmOk r \<longrightarrow>
            (\<forall>s0. s = s0\<lparr> scriptPaths := ps \<rparr> \<and> loadScriptPaths (argv e) = ps \<and> ps \<noteq> [] \<longrightarrow>
               go e s0 = (s'\<lparr> ok := False, errors := errors s0 @ ?lines r \<rparr>, ThrowError ?summary)
               \<and> subscribe e (snd (go e s0)) (fst (go e s0)) = (fst (go e s0), [ErrorEv ?summary]))"
  proof (intro impI allI, elim conjE)
    fix s0
    assume bad: "\<not> lmOk r" and s: "s = s0\<lparr> scriptPaths := ps \<rparr>"
      and ps: "loadScriptPaths (argv e) = ps" "ps \<noteq> []"
    from assms s have lm: "loadModules e ps (s0\<lparr> scriptPaths := ps \<rparr>) = (s', r)" by simp
    have "errors s' = errors s0" by (simp add: s' s)
    with go_load_failed [OF ps lm bad]
    have g: "go e s0 = (s'\<lparr> ok := False, errors := errors s0 @ ?lines r \<rparr>, ThrowError ?summary)"
      by (simp only: lines summary)
    then show "go e s0 = (s'\<lparr> ok := False, errors := errors s0 @ ?lines r \<rparr>, ThrowError ?summary)
               \<and> subscribe e (snd (go e s0)) (fst (go e s0)) = (fst (go e s0), [ErrorEv ?summary])"
      by (simp add: subscribe_def)
  qed
  from c1 c2 c3 c4 c5 e1 e2 c6 c7 show ?thesis by blast
qed

theorem resolution_exhaustive_witness:
  "loadScriptPaths (argv (exampleEnv [''--boots'', ''/m/t'', ''gone'', ''/m/x'', ''/m/e'']))
     = [''/m/t'', ''gone'', ''/m/x'', ''/m/e'']
   \<and> \<not> lmOk (snd (loadModules (exampleEnv [''--boots'', ''/m/t'', ''gone'', ''/m/x'', ''/m/e''])
                    [''/m/t'', ''gone'', ''/m/x'', ''/m/e'']
                    (freshSession\<lparr> scriptPaths := [''/m/t'', ''gone'', ''/m/x'', ''/m/e''] \<rparr>)))
   \<and> cantResolve (snd (loadModules (exampleEnv [''--boots'', ''/m/t'', ''gone'', ''/m/x'', ''/m/e''])
                    [''/m/t'', ''gone'', ''/m/x'', ''/m/e'']
                    (freshSession\<lparr> scriptPaths := [''/m/t'', ''gone'', ''/m/x'', ''/m/e''] \<rparr>)))
       = Some [''/base/gone'', ''/m/e'']
   \<and> wrongType (snd (loadModules (exampleEnv [''--boots'', ''/m/t'', ''gone'', ''/m/x'', ''/m/e''])
                    [''/m/t'', ''gone'', ''/m/x'', ''/m/e'']
                    (freshSession\<lparr> scriptPaths := [''/m/t'', ''gone'', ''/m/x'', ''/m/e''] \<rparr>)))
       = Some [''/m/x'']
   \<and> snd (go (exampleEnv [''--boots'', ''/m/t'', ''gone'', ''/m/x'', ''/m/e'']) freshSession)
       = ThrowError ''Boots Error: At least one error occurred while attempting to load the BootsScript modules. Use Boots.logErrors() to view more information.''
   \<and> errors (fst (go (exampleEnv [''--boots'', ''/m/t'', ''gone'', ''/m/x'', ''/m/e'']) freshSession))
       = [''Could not resolve the following paths: ['' @ CHR 0x22 # ''/base/gone'' @ CHR 0x22 # '',''
            @ CHR 0x22 # ''/m/e'' @ CHR 0x22 # '']'',
          ''The following given BootsScript modules had no default export that was an instance of BootsScript: [''
            @ CHR 0x22 # ''/m/x'' @ CHR 0x22 # '']'']
   \<and> \<not> ok (fst (go (exampleEnv [''--boots'', ''/m/t'', ''gone'', ''/m/x'', ''/m/e'']) freshSession))
   \<and> subscribe (exampleEnv [''--boots'', ''/m/t'', ''gone'', ''/m/x'', ''/m/e''])
        (snd (go (exampleEnv [''--boots'', ''/m/t'', ''gone'', ''/m/x'', ''/m/e'']) freshSession))
        (fst (go (exampleEnv [''--boots'', ''/m/t'', ''gone'', ''/m/x'', ''/m/e'']) freshSession))
       = (fst (go (exampleEnv [''--boots'', ''/m/t'', ''gone'', ''/m/x'', ''/m/e'']) freshSession),
          [ErrorEv ''Boots Error: At least one error occurred while attempting to load the BootsScript modules. Use Boots.logErrors() to view more information.''])"
proof -
  let ?e = "exampleEnv [''--boots'', ''/m/t'', ''gone'', ''/m/x'', ''/m/e'']"
  let ?ps = "[''/m/t'', ''gone'', ''/m/x'', ''/m/e'']"
  let ?s = "freshSession\<lparr> scriptPaths := ?ps \<rparr>"
  let ?r = "snd (loadModules ?e ?ps ?s)"
  let ?summary = "''Boots Error: At least one error occurred while attempting to load the BootsScript modules. Use Boots.logErrors() to view more information.''"
  note T = resolution_exhaustive [of ?e ?ps ?s, OF prod.collapse [symmetric]]
  have base: "baseUrl ?s = ''/base''"
    by (simp add: freshSession_def constructor_def exampleEnv_def)
  have rs: "map (resolveOne ?e ''/base'') ?ps
              = [Unit testScript, Unresolvable ''/base/gone'', WrongShape ''/m/x'', Unresolvable ''/m/e'']"
    by (simp add: resolveOne_def requireDefault_def exampleEnv_def exampleModules_def moduleOf_def
          simpleJoin_def shapeOf_def isBootsScript_def testScript_def noRunScript_def)
  have scan: "loadScriptPaths (argv ?e) = ?ps"
    by (simp add: exampleEnv_def loadScriptPaths_def scanAt_def commandlineFlag_def upt_rec
          whileSearching.simps notDash_def)
  note c = conjunct2 [OF conjunct2 [OF conjunct2 [OF T]]]
  from conjunct1 [OF c, unfolded base rs] have cr: "cantResolve ?r = Some [''/base/gone'', ''/m/e'']"
    by (simp add: extendOpt_def)
  from conjunct1 [OF conjunct2 [OF c], unfolded base rs] have wt: "wrongType ?r = Some [''/m/x'']"
    by (simp add: extendOpt_def)
  note c' = conjunct2 [OF conjunct2 [OF conjunct2 [OF conjunct2 [OF c]]]]
  from conjunct1 [OF c'] cr have bad: "\<not> lmOk ?r"
    by simp
  note g = conjunct2 [OF c']
  from g bad scan have gg: "go ?e freshSession =
      ((fst (loadModules ?e ?ps ?s))\<lparr> ok := False,
          errors := errors freshSession
            @ (case cantResolve ?r of
                 None \<Rightarrow> []
               | Some qs \<Rightarrow> [''Could not resolve the following paths: '' @ jsonStringify ?e qs])
            @ (case wrongType ?r of
                 None \<Rightarrow> []
               | Some qs \<Rightarrow>
                   [''The following given BootsScript modules had no default export that was an instance of BootsScript: ''
                      @ jsonStringify ?e qs]) \<rparr>,
       ThrowError ?summary)
     \<and> subscribe ?e (snd (go ?e freshSession)) (fst (go ?e freshSession))
         = (fst (go ?e freshSession), [ErrorEv ?summary])"
    by blast
  from conjunct1 [OF gg] have g1: "snd (go ?e freshSession) = ThrowError ?summary"
    by simp
  have fe: "errors freshSession = []" by (simp add: freshSession_def constructor_def)
  have js: "jsonStringify ?e = quoteList" by (simp add: exampleEnv_def)
  from conjunct1 [OF gg] have "errors (fst (go ?e freshSession))
       = errors freshSession
            @ (case cantResolve ?r of
                 None \<Rightarrow> []
               | Some qs \<Rightarrow> [''Could not resolve the following paths: '' @ jsonStringify ?e qs])
            @ (case wrongType ?r of
                 None \<Rightarrow> []
               | Some qs \<Rightarrow>
                   [''The following given BootsScript modules had no default export that was an instance of BootsScript: ''
                      @ jsonStringify ?e qs])"
    by simp
  then have g3: "errors (fst (go ?e freshSession))
       = [''Could not resolve the following paths: ['' @ CHR 0x22 # ''/base/gone'' @ CHR 0x22 # '',''
            @ CHR 0x22 # ''/m/e'' @ CHR 0x22 # '']'',
          ''The following given BootsScript modules had no default export that was an instance of BootsScript: [''
            @ CHR 0x22 # ''/m/x'' @ CHR 0x22 # '']'']"
    unfolding cr wt fe js by (simp add: quoteList_def)
  from conjunct1 [OF gg] have g4: "\<not> ok (fst (go ?e freshSession))"
    by simp
  note g2 = conjunct2 [OF gg]
  show ?thesis
    by (intro conjI) (rule scan bad cr wt g1 g3 g4 g2)+
qed

text \<open>
  C3 as stated fails: with base directory \<^verbatim>\<open>/base\<close> and the one identifier \<^verbatim>\<open>gone\<close>, which
  loads neither directly nor as \<^verbatim>\<open>/base/gone\<close>, the report is not ok and the one stored
  diagnostic lists \<^verbatim>\<open>/base/gone\<close>; the identifier \<^verbatim>\<open>gone\<close> is not an entry of the report.
\<close>

theorem diagnostics_hold_joined_path:
  "loadScriptPaths (argv (exampleEnv [''--boots'', ''gone''])) = [''gone'']
   \<and> \<not> lmOk (snd (loadModules (exampleEnv [''--boots'', ''gone'']) [''gone'']
                    (freshSession\<lparr> scriptPaths := [''gone''] \<rparr>)))
   \<and> cantResolve (snd (loadModules (exampleEnv [''--boots'', ''gone'']) [''gone'']
                    (freshSession\<lparr> scriptPaths := [''gone''] \<rparr>)))
       = Some [''/base/gone'']
   \<and> wrongType (snd (loadModules (exampleEnv [''--boots'', ''gone'']) [''gone'']
                    (freshSession\<lparr> scriptPaths := [''gone''] \<rparr>)))
       = None
   \<and> errors (fst (go (exampleEnv [''--boots'', ''gone'']) freshSession))
       = [''Could not resolve the following paths: ['' @ CHR 0x22 # ''/base/gone'' @ CHR 0x22 # '']'']
   \<and> errors (fst (go (exampleEnv [''--boots'', ''gone'']) freshSession))
       \<noteq> [''Could not resolve the following paths: ['' @ CHR 0x22 # ''gone'' @ CHR 0x22 # '']'']"
proof -
  let ?e = "exampleEnv [''--boots'', ''gone'']"
  let ?s = "freshSession\<lparr> scriptPaths := [''gone''] \<rparr>"
  have scan: "loadScriptPaths (argv ?e) = [''gone'']"
    by (simp add: exampleEnv_def loadScriptPaths_def scanAt_def commandlineFlag_def upt_rec
          whileSearching.simps notDash_def)
  have lm: "loadModules ?e [''gone''] ?s
      = (?s\<lparr> requireLog := [''gone'', ''/base/gone''] \<rparr>,
         \<lparr> lmOk = False, cantResolve = Some [''/base/gone''], wrongType = None \<rparr>)"
    by (simp add: loadModules_def loadOne_def requireDefault_def exampleEnv_def exampleModules_def
          freshSession_def constructor_def simpleJoin_def logRequire_def recordCantResolve_def
          pushOpt_def Let_def)
  have er: "errors (fst (go ?e freshSession))
       = [''Could not resolve the following paths: ['' @ CHR 0x22 # ''/base/gone'' @ CHR 0x22 # '']'']"
    unfolding go_def scan
    by (simp add: Let_def lm pushErrors_def cantResolveDiagnostic_def)
       (simp add: exampleEnv_def quoteList_def freshSession_def constructor_def)
  from lm have a: "\<not> lmOk (snd (loadModules ?e [''gone''] ?s))"
    and b: "cantResolve (snd (loadModules ?e [''gone''] ?s)) = Some [''/base/gone'']"
    and c: "wrongType (snd (loadModules ?e [''gone''] ?s)) = None"
    by simp_all
  from er have d: "errors (fst (go ?e freshSession))
       \<noteq> [''Could not resolve the following paths: ['' @ CHR 0x22 # ''gone'' @ CHR 0x22 # '']'']"
    by simp
  show ?thesis
    by (intro conjI) (rule scan a b c er d)+
qed

section \<open>The resolver, one identifier at a time\<close>

lemma loadOne_requireLog:
  "requireLog (fst (loadOne e p (s, r))) = requireLog s @ attempts e (baseUrl s) p"
  by (cases "resolveOne e (baseUrl s) p") (simp_all add: loadOne_resolveOne applyResolution_def)

lemma loadOne_both_raise:
  assumes "requireDefault e p = None" and "requireDefault e (pathJoin e (baseUrl s) p) = None"
  shows "loadOne e p (s, r) =
           (s\<lparr> requireLog := requireLog s @ [p, pathJoin e (baseUrl s) p] \<rparr>,
            r\<lparr> lmOk := False, cantResolve := pushOpt (cantResolve r) (pathJoin e (baseUrl s) p) \<rparr>)"
  using assms
  by (simp add: loadOne_def logRequire_def recordCantResolve_def Let_def)

lemma loadModules_tries_all: "set ps \<subseteq> set (requireLog (fst (loadModules e ps s)))"
  using tried_all [of ps e "baseUrl s"] by (auto simp: loadModules_eq)

text \<open>
  C4 (amended). For every identifier, \<^verbatim>\<open>require\<close> is called on the identifier itself first;
  if that load raises there is exactly one more call, on the identifier joined onto the
  base directory, and otherwise none. If both loads raise, the joined path (not the
  identifier as the caller supplied it) is pushed onto the unresolvable collection, the
  report's flag is cleared and no unit is appended. The loop then goes on with the next
  identifier: every later identifier is tried as well.
\<close>

theorem loadOne_fallback:
  "requireLog (fst (loadOne e p (s, r)))
     = requireLog s @ (if requireDefault e p = None then [p, pathJoin e (baseUrl s) p] else [p])
   \<and> (requireDefault e p = None \<and> requireDefault e (pathJoin e (baseUrl s) p) = None \<longrightarrow>
        loadOne e p (s, r) =
          (s\<lparr> requireLog := requireLog s @ [p, pathJoin e (baseUrl s) p] \<rparr>,
           r\<lparr> lmOk := False, cantResolve := pushOpt (cantResolve r) (pathJoin e (baseUrl s) p) \<rparr>))
   \<and> loadModules e (p # ps) s
        = fold (loadOne e) ps (loadOne e p (s, \<lparr> lmOk = True, cantResolve = None, wrongType = None \<rparr>))
   \<and> set ps \<subseteq> set (requireLog (fst (loadModules e (p # ps) s)))"
proof -
  have a: "requireLog (fst (loadOne e p (s, r)))
     = requireLog s @ (if requireDefault e p = None then [p, pathJoin e (baseUrl s) p] else [p])"
    by (simp add: loadOne_requireLog attempts_def)
  have b: "loadModules e (p # ps) s
        = fold (loadOne e) ps (loadOne e p (s, \<lparr> lmOk = True, cantResolve = None, wrongType = None \<rparr>))"
    by (simp add: loadModules_def)
  have c: "set ps \<subseteq> set (requireLog (fst (loadModules e (p # ps) s)))"
    using loadModules_tries_all [of "p # ps" e s] by simp
  from a b c loadOne_both_raise [of e p s r] show ?thesis by blast
qed

theorem loadOne_fallback_witness:
  "requireDefault (exampleEnv []) ''gone'' = None
   \<and> requireDefault (exampleEnv []) (pathJoin (exampleEnv []) (baseUrl freshSession) ''gone'') = None
   \<and> loadOne (exampleEnv []) ''gone'' (freshSession, \<lparr> lmOk = True, cantResolve = None, wrongType = None \<rparr>)
       = (freshSession\<lparr> requireLog := [''gone'', ''/base/gone''] \<rparr>,
          \<lparr> lmOk = False, cantResolve = Some [''/base/gone''], wrongType = None \<rparr>)"
proof -
  have h1: "requireDefault (exampleEnv []) ''gone'' = None"
    by (simp add: requireDefault_def exampleEnv_def exampleModules_def)
  have j: "pathJoin (exampleEnv []) (baseUrl freshSession) ''gone'' = ''/base/gone''"
    by (simp add: exampleEnv_def freshSession_def constructor_def simpleJoin_def)
  have h2: "requireDefault (exampleEnv []) (pathJoin (exampleEnv []) (baseUrl freshSession) ''gone'') = None"
    unfolding j by (simp add: requireDefault_def exampleEnv_def exampleModules_def)
  have l: "requireLog freshSession = []"
    by (simp add: freshSession_def constructor_def)
  from loadOne_fallback [of "exampleEnv []" "''gone''" freshSession
          "\<lparr> lmOk = True, cantResolve = None, wrongType = None \<rparr>" "[]"] h1 h2
  have "loadOne (exampleEnv []) ''gone'' (freshSession, \<lparr> lmOk = True, cantResolve = None, wrongType = None \<rparr>)
       = (freshSession\<lparr> requireLog := requireLog freshSession @ [''gone'', pathJoin (exampleEnv []) (baseUrl freshSession) ''gone''] \<rparr>,
          \<lparr> lmOk = True, cantResolve = None, wrongType = None \<rparr>\<lparr> lmOk := False,
             cantResolve := pushOpt None (pathJoin (exampleEnv []) (baseUrl freshSession) ''gone'') \<rparr>)"
    by simp
  then have "loadOne (exampleEnv []) ''gone'' (freshSession, \<lparr> lmOk = True, cantResolve = None, wrongType = None \<rparr>)
       = (freshSession\<lparr> requireLog := [''gone'', ''/base/gone''] \<rparr>,
          \<lparr> lmOk = False, cantResolve = Some [''/base/gone''], wrongType = None \<rparr>)"
    unfolding j l by (simp add: pushOpt_def)
  with h1 h2 show ?thesis by blast
qed

text \<open>
  C4 as stated fails: with base directory \<^verbatim>\<open>/base\<close>, the identifier \<^verbatim>\<open>gone\<close> loads neither
  directly nor as \<^verbatim>\<open>/base/gone\<close>, and the unresolvable collection then holds \<^verbatim>\<open>/base/gone\<close>,
  not \<^verbatim>\<open>gone\<close>.
\<close>

theorem original_identifier_not_recorded:
  "requireDefault (exampleEnv []) ''gone'' = None
   \<and> requireDefault (exampleEnv []) ''/base/gone'' = None
   \<and> cantResolve (snd (loadModules (exampleEnv []) [''gone''] freshSession)) = Some [''/base/gone'']
   \<and> cantResolve (snd (loadModules (exampleEnv []) [''gone''] freshSession)) \<noteq> Some [''gone'']"
  by (simp add: loadModules_def loadOne_def requireDefault_def exampleEnv_def exampleModules_def
        freshSession_def constructor_def simpleJoin_def logRequire_def recordCantResolve_def pushOpt_def
        Let_def)


lemma isBootsScript_nullish: "isBootsScript v = None \<longleftrightarrow> v = JUndefined \<or> v = JNull"
  by (cases v) (simp_all add: isBootsScript_def)

text \<open>
  C10 (amended). When the module of an identifier loads, directly or through the fallback,
  and its default export is \<^verbatim>\<open>undefined\<close> or \<^verbatim>\<open>null\<close>, the shape check throws; the outer
  handler catches the throw and pushes the path \<open>q\<close> the module was loaded under onto the
  unresolvable collection: the identifier itself after a direct load, the identifier joined
  onto the base directory after the fallback. The wrong-shape collection and the units stay
  as they were, and the callback returns normally.
\<close>

theorem nullish_default_unresolvable:
  assumes "q = (if requireDefault e p = None then pathJoin e (baseUrl s) p else p)"
    and "requireDefault e q = Some d"
    and "d = JUndefined \<or> d = JNull"
  shows "isBootsScript d = None
       \<and> loadOne e p (s, r) =
           (s\<lparr> requireLog := requireLog s @ attempts e (baseUrl s) p \<rparr>,
            r\<lparr> lmOk := False, cantResolve := pushOpt (cantResolve r) q \<rparr>)
       \<and> wrongType (snd (loadOne e p (s, r))) = wrongType r
       \<and> bootsScripts (fst (loadOne e p (s, r))) = bootsScripts s
       \<and> (requireDefault e p \<noteq> None \<longrightarrow> q = p)"
proof -
  from assms(3) have t: "isBootsScript d = None" by (simp add: isBootsScript_nullish)
  from assms(1,2) have "resolveOne e (baseUrl s) p = shapeOf q d"
    by (auto simp: resolveOne_def split: option.splits if_splits)
  with t have "resolveOne e (baseUrl s) p = Unresolvable q" by (simp add: shapeOf_def)
  then have l: "loadOne e p (s, r) =
           (s\<lparr> requireLog := requireLog s @ attempts e (baseUrl s) p \<rparr>,
            r\<lparr> lmOk := False, cantResolve := pushOpt (cantResolve r) q \<rparr>)"
    by (simp add: loadOne_resolveOne applyResolution_def recordCantResolve_def)
  from assms(1) have "requireDefault e p \<noteq> None \<longrightarrow> q = p" by simp
  with t l show ?thesis by simp
qed

theorem nullish_default_unresolvable_witness:
  "requireDefault (exampleEnv []) ''/m/e'' = Some JUndefined
   \<and> loadOne (exampleEnv []) ''/m/e'' (freshSession, \<lparr> lmOk = True, cantResolve = None, wrongType = None \<rparr>)
       = (freshSession\<lparr> requireLog := [''/m/e''] \<rparr>,
          \<lparr> lmOk = False, cantResolve = Some [''/m/e''], wrongType = None \<rparr>)
   \<and> requireDefault (exampleEnv []) ''n'' = None
   \<and> requireDefault (exampleEnv []) ''/base/n'' = Some JNull
   \<and> loadOne (exampleEnv []) ''n'' (freshSession, \<lparr> lmOk = True, cantResolve = None, wrongType = None \<rparr>)
       = (freshSession\<lparr> requireLog := [''n'', ''/base/n''] \<rparr>,
          \<lparr> lmOk = False, cantResolve = Some [''/base/n''], wrongType = None \<rparr>)"
proof -
  let ?e = "exampleEnv []"
  let ?r = "\<lparr> lmOk = True, cantResolve = None, wrongType = None \<rparr>"
  have b: "baseUrl freshSession = ''/base''" and l: "requireLog freshSession = []"
    by (simp_all add: freshSession_def constructor_def exampleEnv_def)
  have j: "pathJoin ?e ''/base'' ''n'' = ''/base/n''"
    by (simp add: exampleEnv_def simpleJoin_def)
  have d1: "requireDefault ?e ''/m/e'' = Some JUndefined"
    by (simp add: requireDefault_def exampleEnv_def exampleModules_def)
  have d2: "requireDefault ?e ''n'' = None"
    by (simp add: requireDefault_def exampleEnv_def exampleModules_def)
  have d3: "requireDefault ?e ''/base/n'' = Some JNull"
    by (simp add: requireDefault_def exampleEnv_def exampleModules_def moduleOf_def)
  have q1: "''/m/e'' = (if requireDefault ?e ''/m/e'' = None then pathJoin ?e (baseUrl freshSession) ''/m/e'' else ''/m/e'')"
    by (simp add: d1)
  have q2: "''/base/n'' = (if requireDefault ?e ''n'' = None then pathJoin ?e (baseUrl freshSession) ''n'' else ''n'')"
    by (simp add: d2 b j)
  from nullish_default_unresolvable [OF q1 d1, where r = ?r]
  have w1: "loadOne ?e ''/m/e'' (freshSession, ?r)
       = (freshSession\<lparr> requireLog := [''/m/e''] \<rparr>,
          \<lparr> lmOk = False, cantResolve = Some [''/m/e''], wrongType = None \<rparr>)"
    by (simp add: attempts_def d1 l pushOpt_def)
  from nullish_default_unresolvable [OF q2 d3, where r = ?r]
  have w2: "loadOne ?e ''n'' (freshSession, ?r)
       = (freshSession\<lparr> requireLog := [''n'', ''/base/n''] \<rparr>,
          \<lparr> lmOk = False, cantResolve = Some [''/base/n''], wrongType = None \<rparr>)"
    by (simp add: attempts_def d2 l b j pushOpt_def)
  show ?thesis
    by (intro conjI) (rule d1 w1 d2 d3 w2)+
qed

text \<open>
  C10 as stated fails: with base directory \<^verbatim>\<open>/base\<close>, the identifier \<^verbatim>\<open>n\<close> does not load
  directly; the module \<^verbatim>\<open>/base/n\<close> loads and its default export is \<^verbatim>\<open>null\<close>. The
  unresolvable collection then holds \<^verbatim>\<open>/base/n\<close>, not the identifier \<^verbatim>\<open>n\<close>.
\<close>

theorem null_default_after_fallback:
  "require (exampleEnv []) ''n'' = None
   \<and> require (exampleEnv []) ''/base/n'' = Some (moduleOf JNull)
   \<and> getProp (moduleOf JNull) ''default'' = Some JNull
   \<and> cantResolve (snd (loadModules (exampleEnv []) [''n''] freshSession)) = Some [''/base/n'']
   \<and> cantResolve (snd (loadModules (exampleEnv []) [''n''] freshSession)) \<noteq> Some [''n'']
   \<and> wrongType (snd (loadModules (exampleEnv []) [''n''] freshSession)) = None"
  by (simp add: loadModules_def loadOne_def requireDefault_def exampleEnv_def exampleModules_def
        freshSession_def constructor_def simpleJoin_def logRequire_def recordCantResolve_def
        pushOpt_def Let_def moduleOf_def checkModule_def isBootsScript_def)

section \<open>The shape check, the empty command line and the status flag\<close>

lemma shapeCheckPasses_iff:
  "shapeCheckPasses v \<longleftrightarrow>
     (\<exists>f n. getProp v ''run'' = Some (JFun f) \<and> getProp v ''bootsScriptName'' = Some n \<and> truthy n)"
proof (cases "getProp v ''run''")
  case None
  then show ?thesis by (simp add: shapeCheckPasses_def isBootsScript_def)
next
  case (Some x)
  then have nn: "getProp v ''bootsScriptName'' \<noteq> None" by (cases v) simp_all
  show ?thesis
  proof (cases x)
    case (JFun f)
    with Some nn show ?thesis
      by (auto simp: shapeCheckPasses_def isBootsScript_def)
  qed (use Some in \<open>simp_all add: shapeCheckPasses_def isBootsScript_def\<close>)
qed

lemma spec_shape_passes: "specScriptUnitShape v \<Longrightarrow> shapeCheckPasses v"
  by (auto simp: specScriptUnitShape_def specNonEmptyName_def specCallableAwaitable_def
        shapeCheckPasses_iff split: option.splits jsval.splits)

lemma checkModule_not_callable:
  assumes "getProp v ''run'' = Some x" and "\<not> typeofFunction x"
  shows "checkModule q v (s, r) = (s, r\<lparr> lmOk := False, wrongType := pushOpt (wrongType r) q \<rparr>)"
  using assms by (simp add: checkModule_def isBootsScript_def recordWrongType_def)

text \<open>
  C5 (amended). The shape check passes if and only if the value's \<^verbatim>\<open>run\<close> field is a
  function and its name field is truthy; what \<^verbatim>\<open>run\<close> takes or returns is not looked at. A
  value with a non-empty name and a callable operation returning an awaitable therefore
  passes. A value with a non-empty name whose \<^verbatim>\<open>run\<close> is not callable does not pass: its
  path is pushed onto the wrong-shape collection, no unit is appended, and nothing throws.
\<close>

theorem shape_check_is_duck_typing:
  "(shapeCheckPasses v \<longleftrightarrow>
      (\<exists>f n. getProp v ''run'' = Some (JFun f) \<and> getProp v ''bootsScriptName'' = Some n \<and> truthy n))
   \<and> (specScriptUnitShape v \<longrightarrow> shapeCheckPasses v)
   \<and> (specNonEmptyName v \<and> (\<exists>x. getProp v ''run'' = Some x \<and> \<not> typeofFunction x) \<longrightarrow>
        \<not> shapeCheckPasses v
        \<and> checkModule q v (s, r) = (s, r\<lparr> lmOk := False, wrongType := pushOpt (wrongType r) q \<rparr>))"
proof -
  have "\<not> shapeCheckPasses v" if "getProp v ''run'' = Some x" "\<not> typeofFunction x" for x
    using that by (auto simp: shapeCheckPasses_iff)
  with shapeCheckPasses_iff [of v] spec_shape_passes [of v] checkModule_not_callable [of v _ q s r]
  show ?thesis by blast
qed

theorem shape_check_is_duck_typing_witness:
  "specScriptUnitShape testScript \<and> shapeCheckPasses testScript
   \<and> specNonEmptyName noRunScript \<and> getProp noRunScript ''run'' = Some (JStr ''nope'')
   \<and> \<not> typeofFunction (JStr ''nope'') \<and> \<not> shapeCheckPasses noRunScript
   \<and> checkModule ''/m/x'' noRunScript (freshSession, \<lparr> lmOk = True, cantResolve = None, wrongType = None \<rparr>)
       = (freshSession, \<lparr> lmOk = False, cantResolve = None, wrongType = Some [''/m/x''] \<rparr>)"
proof -
  let ?r = "\<lparr> lmOk = True, cantResolve = None, wrongType = None \<rparr>"
  note T = shape_check_is_duck_typing
  have a: "specScriptUnitShape testScript"
    by (simp add: specScriptUnitShape_def specNonEmptyName_def specCallableAwaitable_def testScript_def)
  from conjunct1 [OF conjunct2 [OF T [of testScript]]] a have b: "shapeCheckPasses testScript" by blast
  have c: "specNonEmptyName noRunScript" by (simp add: specNonEmptyName_def noRunScript_def)
  have d: "getProp noRunScript ''run'' = Some (JStr ''nope'')" by (simp add: noRunScript_def)
  have e: "\<not> typeofFunction (JStr ''nope'')" by simp
  from conjunct2 [OF conjunct2 [OF T [of noRunScript "''/m/x''" freshSession ?r]]] c d e
  have f: "\<not> shapeCheckPasses noRunScript
        \<and> checkModule ''/m/x'' noRunScript (freshSession, ?r)
           = (freshSession, ?r\<lparr> lmOk := False, wrongType := pushOpt (wrongType ?r) ''/m/x'' \<rparr>)"
    by blast
  then have g: "checkModule ''/m/x'' noRunScript (freshSession, ?r)
       = (freshSession, \<lparr> lmOk = False, cantResolve = None, wrongType = Some [''/m/x''] \<rparr>)"
    by (simp add: pushOpt_def)
  from f have h: "\<not> shapeCheckPasses noRunScript" by blast
  show ?thesis
    by (intro conjI) (rule a b c d e h g)+
qed

text \<open>
  C5 as stated fails: a value with a name whose \<^verbatim>\<open>run\<close> is a function that returns a
  number passes the check, although \<^verbatim>\<open>run\<close> returns no awaitable.
\<close>

theorem shape_check_ignores_return:
  "shapeCheckPasses plainRunScript \<and> \<not> specScriptUnitShape plainRunScript
   \<and> callRun plainRunScript = ReturnsNonThenable"
  by (simp add: shapeCheckPasses_def isBootsScript_def plainRunScript_def specScriptUnitShape_def
        specNonEmptyName_def specCallableAwaitable_def callRun_def)

text \<open>
  C6. When the scan of the command line yields no identifier, \<^verbatim>\<open>go\<close> clears the flag and
  returns the observable that fails with \<^verbatim>\<open>Boots Error: No script paths were specified.\<close>;
  \<^verbatim>\<open>require\<close> is not called, no unit is added, and the observable is not the one of
  \<^verbatim>\<open>_runScripts\<close>: a subscriber receives that error and nothing else.
\<close>

theorem go_no_paths:
  assumes "loadScriptPaths (argv e) = []"
  shows "go e s = (s\<lparr> scriptPaths := [], ok := False \<rparr>,
                   ThrowError ''Boots Error: No script paths were specified.'')
       \<and> \<not> ok (fst (go e s))
       \<and> requireLog (fst (go e s)) = requireLog s
       \<and> bootsScripts (fst (go e s)) = bootsScripts s
       \<and> snd (go e s) \<noteq> RunScripts
       \<and> subscribe e (snd (go e s)) (fst (go e s))
           = (fst (go e s), [ErrorEv ''Boots Error: No script paths were specified.''])"
  using assms by (simp add: go_def noPathsMessage_def subscribe_def)

theorem go_no_paths_witness:
  "loadScriptPaths (argv (exampleEnv [''node'', ''main.js''])) = []
   \<and> go (exampleEnv [''node'', ''main.js'']) freshSession
       = (freshSession\<lparr> scriptPaths := [], ok := False \<rparr>,
          ThrowError ''Boots Error: No script paths were specified.'')"
proof -
  have h: "loadScriptPaths (argv (exampleEnv [''node'', ''main.js''])) = []"
    by (simp add: exampleEnv_def loadScriptPaths_def scanAt_def commandlineFlag_def upt_rec)
  from go_no_paths [OF h, of freshSession] h show ?thesis by blast
qed

lemma ok_loadModules: "ok (fst (loadModules e ps s)) = ok s"
  by (simp add: loadModules_eq)

lemma ok_pushErrors: "ok (pushErrors e r s) = ok s"
  by (simp add: pushErrors_def split: option.splits)

lemma ok_go: "ok (fst (go e s)) \<Longrightarrow> ok s"
proof -
  assume a: "ok (fst (go e s))"
  obtain s2 r where lm: "loadModules e (loadScriptPaths (argv e)) (s\<lparr> scriptPaths := loadScriptPaths (argv e) \<rparr>) = (s2, r)"
    by (cases "loadModules e (loadScriptPaths (argv e)) (s\<lparr> scriptPaths := loadScriptPaths (argv e) \<rparr>)")
  from ok_loadModules [of e "loadScriptPaths (argv e)" "s\<lparr> scriptPaths := loadScriptPaths (argv e) \<rparr>"] lm
  have "ok s2 = ok s" by simp
  with a lm show "ok s"
    by (simp add: go_def Let_def ok_pushErrors split: if_splits)
qed

lemma ok_finishChain: "ok (fst (finishChain e s acc)) \<Longrightarrow> ok s"
  by (cases acc) (auto simp: finishChain_def split: chain.splits)

lemma ok_subscribe: "ok (fst (subscribe e obs s)) \<Longrightarrow> ok s"
  by (cases obs) (auto simp: subscribe_def runScripts_def dest: ok_finishChain)

lemma ok_applyOp: "ok (applyOp op s) \<Longrightarrow> ok s"
  by (cases op) (auto simp: logErrors_def dest: ok_go ok_subscribe)

lemma ok_fold: "ok (fold applyOp ops s) \<Longrightarrow> ok s"
  by (induction ops arbitrary: s) (auto dest: ok_applyOp)

text \<open>
  C8. The constructor sets \<^verbatim>\<open>ok\<close> to true. Every operation on a session leaves \<^verbatim>\<open>ok\<close> as
  it was or makes it false, and once it is false it stays false under every sequence of
  operations.
\<close>

theorem ok_monotone:
  "ok (constructor e options)
   \<and> (ok (applyOp op s) = ok s \<or> \<not> ok (applyOp op s))
   \<and> (\<not> ok s \<longrightarrow> \<not> ok (fold applyOp ops s))"
  using ok_applyOp [of op s] ok_fold [of ops s] by (auto simp: constructor_def)

theorem ok_monotone_witness:
  "\<not> ok (applyOp (OpGo (exampleEnv [])) freshSession)
   \<and> \<not> ok (fold applyOp [OpLogErrors, OpGo (exampleEnv [''--boots'', ''/m/t'']),
              OpSubscribe (exampleEnv []) RunScripts]
             (applyOp (OpGo (exampleEnv [])) freshSession))"
proof -
  have h: "loadScriptPaths (argv (exampleEnv [])) = []"
    by (simp add: exampleEnv_def loadScriptPaths_def)
  then have a: "\<not> ok (applyOp (OpGo (exampleEnv [])) freshSession)"
    by (simp add: go_def)
  with ok_monotone [of "exampleEnv []" None OpLogErrors "applyOp (OpGo (exampleEnv [])) freshSession"
        "[OpLogErrors, OpGo (exampleEnv [''--boots'', ''/m/t'']), OpSubscribe (exampleEnv []) RunScripts]"]
  show ?thesis by blast
qed

section \<open>The sequencer\<close>

lemma reduceChain_rejected [simp]:
  "reduceChain i us (ChainRejected err, evs) = (ChainRejected err, evs)"
  by (induction us arbitrary: i) (simp_all add: chainStep_def)

lemma reduceChain_pending [simp]:
  "reduceChain i us (ChainPending, evs) = (ChainPending, evs)"
  by (induction us arbitrary: i) (simp_all add: chainStep_def)

lemma reduceChain_append:
  "reduceChain i (us @ vs) acc = reduceChain (i + length us) vs (reduceChain i us acc)"
  by (induction us arbitrary: i acc) simp_all

lemma reduceChain_fulfils:
  "map callRun us = map Fulfils rs \<Longrightarrow>
   reduceChain i us (ChainFulfilled cr, evs) = (ChainFulfilled (cr @ rs), evs @ emitted i rs)"
proof (induction us arbitrary: i rs cr evs)
  case Nil
  then show ?case by simp
next
  case (Cons u us)
  then obtain r rs' where rs: "rs = r # rs'" and u: "callRun u = Fulfils r"
    and rest: "map callRun us = map Fulfils rs'"
    by (cases rs) auto
  from Cons.IH [OF rest] u show ?case
    by (simp add: rs chainStep_def)
qed

lemma chainStep_fails:
  "callRun u = Rejects err \<or> callRun u = ThrowsSync err \<Longrightarrow>
   chainStep i u (ChainFulfilled cr, evs) = (ChainRejected err, evs @ [RunInvoked i])"
  by (auto simp: chainStep_def)

lemma reduceChain_fails:
  assumes "map callRun pre = map Fulfils rs"
    and "callRun u = Rejects err \<or> callRun u = ThrowsSync err"
  shows "reduceChain 0 (pre @ u # post) (ChainFulfilled [], [])
           = (ChainRejected err, emitted 0 rs @ [RunInvoked (length pre)])"
  using assms(2)
  by (simp add: reduceChain_append reduceChain_fulfils [OF assms(1)] chainStep_fails)

lemma runScripts_fulfils:
  "map callRun (bootsScripts s) = map Fulfils rs \<Longrightarrow> runScripts e s = (s, emitted 0 rs @ [Complete])"
  by (simp add: runScripts_def reduceChain_fulfils finishChain_def)

lemma runScripts_fails:
  assumes "bootsScripts s = pre @ u # post" and "map callRun pre = map Fulfils rs"
    and "callRun u = Rejects err \<or> callRun u = ThrowsSync err"
  shows "runScripts e s = (s\<lparr> ok := False \<rparr>, emitted 0 rs @ [RunInvoked (length pre)] @ terminalFailure e err)"
  by (simp add: runScripts_def assms(1) reduceChain_fails [OF assms(2,3)] finishChain_def
        terminalFailure_def split: option.splits)

lemma filter_isNext_emitted: "filter isNext (emitted i rs) = map Next rs"
  by (induction rs arbitrary: i) simp_all

lemma invoked_emitted: "RunInvoked j \<in> set (emitted i rs) \<longleftrightarrow> i \<le> j \<and> j < i + length rs"
proof (induction rs arbitrary: i)
  case Nil
  show ?case by simp
next
  case (Cons r rs)
  have "RunInvoked j \<in> set (emitted i (r # rs)) \<longleftrightarrow> j = i \<or> RunInvoked j \<in> set (emitted (Suc i) rs)"
    by simp
  also have "\<dots> \<longleftrightarrow> j = i \<or> (Suc i \<le> j \<and> j < Suc i + length rs)"
    by (simp only: Cons.IH)
  also have "\<dots> \<longleftrightarrow> i \<le> j \<and> j < i + length (r # rs)"
    by (simp only: list.size) arith
  finally show ?case .
qed

lemma complete_emitted: "Complete \<notin> set (emitted i rs)"
  by (induction rs arbitrary: i) simp_all

lemma error_emitted: "ErrorEv m \<notin> set (emitted i rs)"
  by (induction rs arbitrary: i) simp_all

lemma emitted_nth:
  "j < length rs \<Longrightarrow>
   emitted i rs ! (2 * j) = RunInvoked (i + j) \<and> emitted i rs ! (2 * j + 1) = Next (rs ! j)"
proof (induction rs arbitrary: i j)
  case Nil
  then show ?case by simp
next
  case (Cons r rs)
  show ?case
  proof (cases j)
    case 0
    then show ?thesis by simp
  next
    case (Suc j')
    with Cons.prems have "j' < length rs" by simp
    from Cons.IH [OF this, of "Suc i"] Suc show ?thesis by simp
  qed
qed

lemma length_emitted: "length (emitted i rs) = 2 * length rs"
  by (induction rs arbitrary: i) simp_all

lemma terminalFailure_cases:
  "terminalFailure e err = [] \<or> (\<exists>m. terminalFailure e err = [ErrorEv m])"
  by (simp add: terminalFailure_def split: option.splits)

lemma go_resolved:
  assumes "loadScriptPaths (argv e) = ps" and "ps \<noteq> []"
    and "map (resolveOne e (baseUrl s)) ps = map Unit us"
  shows "go e s = (s\<lparr> scriptPaths := ps, bootsScripts := bootsScripts s @ us,
                      requireLog := requireLog s @ concat (map (attempts e (baseUrl s)) ps) \<rparr>,
                   RunScripts)"
proof -
  have u: "unitsOf (map Unit us) = us" by (induction us) simp_all
  have w: "wrongShapesOf (map Unit us) = []" by (induction us) simp_all
  have c: "unresolvablesOf (map Unit us) = []" by (induction us) simp_all
  from assms(2) have "\<not> length ps < 1" by (cases ps) simp_all
  with assms(1,3) show ?thesis
    by (simp add: go_def Let_def loadModules_eq u w c)
qed


text \<open>
  C2. On a new session, when the scan yields a non-empty identifier sequence, every
  identifier resolves to a unit that passes the shape check, and the promise of every
  unit's \<^verbatim>\<open>run\<close> fulfils, then \<^verbatim>\<open>go\<close> returns the observable of \<^verbatim>\<open>_runScripts\<close> over exactly
  these units in input order, and a subscriber sees one outcome per identifier, in input
  order: the call of unit \<open>i\<close> is at position \<open>2 i\<close> of the stream, its outcome at position
  \<open>2 i + 1\<close>, so that the next unit is called only after the outcome of the one before was
  delivered; the last event is the completion signal, and the flag stays true.
\<close>

theorem go_all_succeed:
  assumes "loadScriptPaths (argv e) = ps" and "ps \<noteq> []"
    and "map (resolveOne e (baseUrl (constructor e options))) ps = map Unit us"
    and "map callRun us = map Fulfils rs"
  shows "snd (go e (constructor e options)) = RunScripts
       \<and> bootsScripts (fst (go e (constructor e options))) = us
       \<and> subscribe e RunScripts (fst (go e (constructor e options)))
           = (fst (go e (constructor e options)), emitted 0 rs @ [Complete])
       \<and> ok (fst (go e (constructor e options)))
       \<and> length rs = length ps
       \<and> filter isNext (emitted 0 rs @ [Complete]) = map Next rs
       \<and> (\<forall>i < length rs. (emitted 0 rs @ [Complete]) ! (2 * i) = RunInvoked i
                          \<and> (emitted 0 rs @ [Complete]) ! (2 * i + 1) = Next (rs ! i))
       \<and> last (emitted 0 rs @ [Complete]) = Complete"
proof -
  let ?s0 = "constructor e options"
  have b0: "bootsScripts ?s0 = []" and k0: "ok ?s0" by (simp_all add: constructor_def)
  note g = go_resolved [OF assms(1,2,3)]
  from g have g1: "snd (go e ?s0) = RunScripts" by simp
  from g b0 have g2: "bootsScripts (fst (go e ?s0)) = us" by simp
  from g k0 have g3: "ok (fst (go e ?s0))" by simp
  from g2 assms(4) have "map callRun (bootsScripts (fst (go e ?s0))) = map Fulfils rs" by simp
  from runScripts_fulfils [OF this, of e]
  have g4: "subscribe e RunScripts (fst (go e ?s0)) = (fst (go e ?s0), emitted 0 rs @ [Complete])"
    by (simp add: subscribe_def)
  have "length (map (resolveOne e (baseUrl ?s0)) ps) = length (map callRun us)"
    by (simp add: assms(3))
  then have g5: "length rs = length ps" by (simp add: assms(4))
  have g6: "filter isNext (emitted 0 rs @ [Complete]) = map Next rs"
    by (simp add: filter_isNext_emitted)
  have g7: "\<forall>i < length rs. (emitted 0 rs @ [Complete]) ! (2 * i) = RunInvoked i
                          \<and> (emitted 0 rs @ [Complete]) ! (2 * i + 1) = Next (rs ! i)"
  proof (intro allI impI)
    fix i assume i: "i < length rs"
    then have "2 * i < length (emitted 0 rs)" "2 * i + 1 < length (emitted 0 rs)"
      by (simp_all add: length_emitted)
    with emitted_nth [OF i, of 0]
    show "(emitted 0 rs @ [Complete]) ! (2 * i) = RunInvoked i
          \<and> (emitted 0 rs @ [Complete]) ! (2 * i + 1) = Next (rs ! i)"
      by (simp add: nth_append)
  qed
  have g8: "last (emitted 0 rs @ [Complete]) = Complete" by simp
  from g1 g2 g3 g4 g5 g6 g7 g8 show ?thesis by blast
qed

theorem go_all_succeed_witness:
  "loadScriptPaths (argv (exampleEnv [''node'', ''--boots'', ''/m/t'', ''/m/s''])) = [''/m/t'', ''/m/s'']
   \<and> map (resolveOne (exampleEnv [''node'', ''--boots'', ''/m/t'', ''/m/s''])
            (baseUrl (constructor (exampleEnv [''node'', ''--boots'', ''/m/t'', ''/m/s'']) None)))
         [''/m/t'', ''/m/s'']
       = map Unit [testScript, softFailScript]
   \<and> map callRun [testScript, softFailScript] = map Fulfils [testOutcome, softFailOutcome]
   \<and> subscribe (exampleEnv [''node'', ''--boots'', ''/m/t'', ''/m/s'']) RunScripts
        (fst (go (exampleEnv [''node'', ''--boots'', ''/m/t'', ''/m/s''])
                 (constructor (exampleEnv [''node'', ''--boots'', ''/m/t'', ''/m/s'']) None)))
       = (fst (go (exampleEnv [''node'', ''--boots'', ''/m/t'', ''/m/s''])
                 (constructor (exampleEnv [''node'', ''--boots'', ''/m/t'', ''/m/s'']) None)),
          [RunInvoked 0, Next testOutcome, RunInvoked 1, Next softFailOutcome, Complete])"
proof -
  let ?e = "exampleEnv [''node'', ''--boots'', ''/m/t'', ''/m/s'']"
  have scan: "loadScriptPaths (argv ?e) = [''/m/t'', ''/m/s'']"
    by (simp add: exampleEnv_def loadScriptPaths_def scanAt_def commandlineFlag_def upt_rec
          whileSearching.simps notDash_def)
  have ne: "[''/m/t'', ''/m/s''] \<noteq> ([] :: string list)" by simp
  have rs: "map (resolveOne ?e (baseUrl (constructor ?e None))) [''/m/t'', ''/m/s'']
              = map Unit [testScript, softFailScript]"
    by (simp add: resolveOne_def requireDefault_def exampleEnv_def exampleModules_def moduleOf_def
          shapeOf_def isBootsScript_def testScript_def softFailScript_def)
  have runs: "map callRun [testScript, softFailScript] = map Fulfils [testOutcome, softFailOutcome]"
    by (simp add: callRun_def testScript_def softFailScript_def)
  from go_all_succeed [OF scan ne rs runs]
  have "subscribe ?e RunScripts (fst (go ?e (constructor ?e None)))
       = (fst (go ?e (constructor ?e None)), emitted 0 [testOutcome, softFailOutcome] @ [Complete])"
    by blast
  then have t: "subscribe ?e RunScripts (fst (go ?e (constructor ?e None)))
       = (fst (go ?e (constructor ?e None)),
          [RunInvoked 0, Next testOutcome, RunInvoked 1, Next softFailOutcome, Complete])"
    by simp
  show ?thesis
    by (intro conjI) (rule scan rs runs t)+
qed

lemma invoked_failing_trace:
  "RunInvoked j \<in> set (emitted 0 rs @ [RunInvoked (length rs)] @ terminalFailure e err)
     \<longleftrightarrow> j \<le> length rs"
proof -
  have "RunInvoked j \<notin> set (terminalFailure e err)"
    using terminalFailure_cases [of e err] by auto
  then have "RunInvoked j \<in> set (emitted 0 rs @ [RunInvoked (length rs)] @ terminalFailure e err)
     \<longleftrightarrow> RunInvoked j \<in> set (emitted 0 rs) \<or> j = length rs"
    by auto
  also have "\<dots> \<longleftrightarrow> j < length rs \<or> j = length rs"
    by (simp only: invoked_emitted) simp
  also have "\<dots> \<longleftrightarrow> j \<le> length rs" by arith
  finally show ?thesis .
qed

lemma nexts_failing_trace:
  "filter isNext (emitted 0 rs @ [RunInvoked (length rs)] @ terminalFailure e err) = map Next rs"
  using terminalFailure_cases [of e err] by (auto simp: filter_isNext_emitted)

lemma complete_failing_trace:
  "Complete \<notin> set (emitted 0 rs @ [RunInvoked (length rs)] @ terminalFailure e err)"
  using terminalFailure_cases [of e err] by (auto simp: complete_emitted)

text \<open>
  The stream when the promises of units \<open>1..k-1\<close> fulfil and that of unit \<open>k\<close> rejects: the
  calls and outcomes of the first \<open>k - 1\<close> units, the call of unit \<open>k\<close>, and the terminal
  failure event when its text can be built from the rejection value. Exactly \<open>k - 1\<close>
  outcomes are emitted; the units called are those at the (zero-based) indices below \<open>k\<close>;
  there is no completion signal, and the flag is false.
\<close>

lemma trace_when_unit_k_rejects:
  assumes "1 \<le> k" and "k \<le> length (bootsScripts s)"
    and "map callRun (take (k - 1) (bootsScripts s)) = map Fulfils rs"
    and "callRun (bootsScripts s ! (k - 1)) = Rejects err"
  shows "length rs = k - 1
       \<and> snd (runScripts e s) = emitted 0 rs @ [RunInvoked (k - 1)] @ terminalFailure e err
       \<and> filter isNext (snd (runScripts e s)) = map Next rs
       \<and> (\<forall>j. RunInvoked j \<in> set (snd (runScripts e s)) \<longleftrightarrow> j < k)
       \<and> Complete \<notin> set (snd (runScripts e s))
       \<and> (\<forall>msg. errorMessage e err = Some msg \<longrightarrow>
             snd (runScripts e s) = emitted 0 rs @ [RunInvoked (k - 1), ErrorEv msg])
       \<and> \<not> ok (fst (runScripts e s))"
proof -
  let ?us = "bootsScripts s"
  from assms(1,2) have lt: "k - 1 < length ?us" by arith
  then have split: "?us = take (k - 1) ?us @ ?us ! (k - 1) # drop (Suc (k - 1)) ?us"
    by (rule id_take_nth_drop)
  have "length (map callRun (take (k - 1) ?us)) = length (map Fulfils rs)"
    by (simp only: assms(3))
  with lt have len: "length rs = k - 1" by simp
  from assms(4) have "callRun (?us ! (k - 1)) = Rejects err \<or> callRun (?us ! (k - 1)) = ThrowsSync err"
    by simp
  from runScripts_fails [OF split assms(3) this, of e] lt
  have run: "runScripts e s = (s\<lparr> ok := False \<rparr>, emitted 0 rs @ [RunInvoked (k - 1)] @ terminalFailure e err)"
    by simp
  then have tr: "snd (runScripts e s) = emitted 0 rs @ [RunInvoked (length rs)] @ terminalFailure e err"
    by (simp add: len)
  have a: "filter isNext (snd (runScripts e s)) = map Next rs"
    by (simp only: tr nexts_failing_trace)
  have b: "\<forall>j. RunInvoked j \<in> set (snd (runScripts e s)) \<longleftrightarrow> j < k"
  proof
    fix j
    have "RunInvoked j \<in> set (snd (runScripts e s)) \<longleftrightarrow> j \<le> length rs"
      by (simp only: tr invoked_failing_trace)
    also from assms(1) len have "\<dots> \<longleftrightarrow> j < k" by arith
    finally show "RunInvoked j \<in> set (snd (runScripts e s)) \<longleftrightarrow> j < k" .
  qed
  have c: "Complete \<notin> set (snd (runScripts e s))"
    by (simp only: tr complete_failing_trace not_False_eq_True)
  have d: "\<forall>msg. errorMessage e err = Some msg \<longrightarrow>
             snd (runScripts e s) = emitted 0 rs @ [RunInvoked (k - 1), ErrorEv msg]"
    by (simp add: run terminalFailure_def)
  from run have f: "\<not> ok (fst (runScripts e s))" by simp
  from run have g: "snd (runScripts e s) = emitted 0 rs @ [RunInvoked (k - 1)] @ terminalFailure e err"
    by simp
  from len g a b c d f show ?thesis by blast
qed


text \<open>
  C7 fails on the code when the rejection value is \<^verbatim>\<open>undefined\<close>. Take two validated units,
  the first of which rejects with \<^verbatim>\<open>undefined\<close>, and \<open>k = 1\<close>. The final handler clears the
  flag and then reads \<^verbatim>\<open>scriptName\<close> of \<^verbatim>\<open>undefined\<close>, which throws, so that
  \<^verbatim>\<open>subscriber.error\<close> is never called: the stream is the call of unit 1 and nothing else.
  No outcome is emitted and unit 2 is not called, but the terminal failure event that the
  outcomes are to precede never comes.
\<close>

theorem undefined_rejection_has_no_failure_event:
  "length (bootsScripts bareSession) = 2
   \<and> shapeCheckPasses (bootsScripts bareSession ! 0)
   \<and> shapeCheckPasses (bootsScripts bareSession ! 1)
   \<and> callRun (bootsScripts bareSession ! 0) = Rejects JUndefined
   \<and> errorMessage (exampleEnv []) JUndefined = None
   \<and> runScripts (exampleEnv []) bareSession = (bareSession\<lparr> ok := False \<rparr>, [RunInvoked 0])"
  by (simp add: bareSession_def bareRejectScript_def testScript_def shapeCheckPasses_def
        isBootsScript_def callRun_def errorMessage_def runScripts_def chainStep_def
        finishChain_def)

lemma errorMessage_strings:
  "getProp err ''scriptName'' = Some (JStr n) \<Longrightarrow> getProp err ''error'' = Some (JStr x) \<Longrightarrow>
   errorMessage e err = Some (''Boots Error: Script '' @ n @ '' reported the following error: '' @ x)"
  by (simp add: errorMessage_def)

lemma chainStep_fulfils:
  "callRun task = Fulfils r \<Longrightarrow>
   chainStep i task (ChainFulfilled cr, evs) = (ChainFulfilled (cr @ [r]), evs @ [RunInvoked i, Next r])"
  by (simp add: chainStep_def)

text \<open>
  C1 (amended). When the promises of the units before \<open>u\<close> fulfil and the promise of \<open>u\<close>
  rejects with \<open>err\<close>, or \<^verbatim>\<open>run\<close> of \<open>u\<close> throws \<open>err\<close>, and the text of the failure event can
  be built from \<open>err\<close>, then nothing is emitted for \<open>u\<close>, no unit after \<open>u\<close> is called, the flag
  becomes false and the stream ends with one failure event; for string fields its text is
  \<^verbatim>\<open>Boots Error: Script <err.scriptName> reported the following error: <err.error>\<close>. A
  promise that fulfils is emitted as a normal item whatever it carries, and the next unit
  is called.
\<close>

theorem rejection_ends_run:
  assumes "bootsScripts s = pre @ u # post"
    and "map callRun pre = map Fulfils rs"
    and "callRun u = Rejects err \<or> callRun u = ThrowsSync err"
    and "errorMessage e err = Some msg"
  shows "runScripts e s = (s\<lparr> ok := False \<rparr>, emitted 0 rs @ [RunInvoked (length pre), ErrorEv msg])
       \<and> filter isNext (snd (runScripts e s)) = map Next rs
       \<and> (\<forall>j > length pre. RunInvoked j \<notin> set (snd (runScripts e s)))
       \<and> (\<forall>n x. getProp err ''scriptName'' = Some (JStr n) \<and> getProp err ''error'' = Some (JStr x) \<longrightarrow>
             msg = ''Boots Error: Script '' @ n @ '' reported the following error: '' @ x)
       \<and> (\<forall>i task r cr evs. callRun task = Fulfils r \<longrightarrow>
             chainStep i task (ChainFulfilled cr, evs)
               = (ChainFulfilled (cr @ [r]), evs @ [RunInvoked i, Next r]))"
proof -
  have "length (map callRun pre) = length (map Fulfils rs)" by (simp only: assms(2))
  then have len: "length pre = length rs" by simp
  from assms(4) have tf: "terminalFailure e err = [ErrorEv msg]" by (simp add: terminalFailure_def)
  from runScripts_fails [OF assms(1,2,3), of e]
  have run: "runScripts e s = (s\<lparr> ok := False \<rparr>, emitted 0 rs @ [RunInvoked (length pre), ErrorEv msg])"
    by (simp add: tf)
  then have tr: "snd (runScripts e s) = emitted 0 rs @ [RunInvoked (length rs)] @ terminalFailure e err"
    by (simp add: tf len)
  have a: "filter isNext (snd (runScripts e s)) = map Next rs"
    by (simp only: tr nexts_failing_trace)
  have b: "\<forall>j > length pre. RunInvoked j \<notin> set (snd (runScripts e s))"
    by (simp only: tr invoked_failing_trace len) simp
  have c: "\<forall>n x. getProp err ''scriptName'' = Some (JStr n) \<and> getProp err ''error'' = Some (JStr x) \<longrightarrow>
             msg = ''Boots Error: Script '' @ n @ '' reported the following error: '' @ x"
    using assms(4) errorMessage_strings [of err _ _ e] by auto
  have d: "\<forall>i task r cr evs. callRun task = Fulfils r \<longrightarrow>
             chainStep i task (ChainFulfilled cr, evs)
               = (ChainFulfilled (cr @ [r]), evs @ [RunInvoked i, Next r])"
    by (simp add: chainStep_fulfils)
  from run a b c d show ?thesis by blast
qed



theorem rejection_ends_run_witness:
  "bootsScripts abcSession = [testScript] @ test2Script # [testScript]
   \<and> map callRun [testScript] = map Fulfils [testOutcome]
   \<and> callRun test2Script = Rejects test2Outcome
   \<and> errorMessage (exampleEnv []) test2Outcome
       = Some ''Boots Error: Script test2-script reported the following error: big error''
   \<and> runScripts (exampleEnv []) abcSession
       = (abcSession\<lparr> ok := False \<rparr>,
          [RunInvoked 0, Next testOutcome, RunInvoked 1,
           ErrorEv ''Boots Error: Script test2-script reported the following error: big error''])"
proof -
  have h1: "bootsScripts abcSession = [testScript] @ test2Script # [testScript]"
    by (simp add: abcSession_def)
  have h2: "map callRun [testScript] = map Fulfils [testOutcome]"
    by (simp add: callRun_def testScript_def)
  have h3: "callRun test2Script = Rejects test2Outcome"
    by (simp add: callRun_def test2Script_def)
  then have h3': "callRun test2Script = Rejects test2Outcome \<or> callRun test2Script = ThrowsSync test2Outcome"
    by simp
  have h4: "errorMessage (exampleEnv []) test2Outcome
             = Some ''Boots Error: Script test2-script reported the following error: big error''"
    by (simp add: errorMessage_def test2Outcome_def)
  from rejection_ends_run [OF h1 h2 h3' h4]
  have "runScripts (exampleEnv []) abcSession
       = (abcSession\<lparr> ok := False \<rparr>,
          emitted 0 [testOutcome] @ [RunInvoked (length [testScript]),
           ErrorEv ''Boots Error: Script test2-script reported the following error: big error''])"
    by blast
  then have t: "runScripts (exampleEnv []) abcSession
       = (abcSession\<lparr> ok := False \<rparr>,
          [RunInvoked 0, Next testOutcome, RunInvoked 1,
           ErrorEv ''Boots Error: Script test2-script reported the following error: big error''])"
    by simp
  show ?thesis
    by (intro conjI) (rule h1 h2 h3 h4 t)+
qed

text \<open>
  C1 as stated fails: a validated unit whose promise fulfils with an outcome of
  \<^verbatim>\<open>success: false\<close> has that outcome emitted as a normal item; the next unit runs, the stream
  completes and the flag stays true.
\<close>

theorem failure_outcome_is_emitted:
  "shapeCheckPasses softFailScript
   \<and> callRun softFailScript = Fulfils softFailOutcome
   \<and> getProp softFailOutcome ''success'' = Some (JBool False)
   \<and> runScripts (exampleEnv []) softSession
       = (softSession, [RunInvoked 0, Next softFailOutcome, RunInvoked 1, Next testOutcome, Complete])
   \<and> ok softSession"
  by (simp add: shapeCheckPasses_def isBootsScript_def softFailScript_def callRun_def
        softFailOutcome_def [of] runScripts_def softSession_def chainStep_def finishChain_def
        testScript_def freshSession_def constructor_def)

end
